theory Spec2Isabelle
  imports Main "HOL-Library.Word"
begin

section \<open>Byte buffers and big integers\<close>

text \<open>
  The coin record of \<^verbatim>\<open>src/utxo.js\<close> works on Node \<^verbatim>\<open>Buffer\<close>s, on the
  big integers of the \<^verbatim>\<open>bigi\<close> package (the class \<^verbatim>\<open>BigInteger\<close> that the
  elliptic-curve package \<^verbatim>\<open>ecurve\<close> computes with) and on JavaScript strings.
  A buffer is a list of bytes, a big integer is an \<^typ>\<open>int\<close>, a string is a
  \<^typ>\<open>string\<close> (the inputs are ASCII).
\<close>

type_synonym byte = "8 word"
type_synonym Buffer = "byte list"

text \<open>
  \<^verbatim>\<open>buf.slice(start, end)\<close>: a negative index counts from the end, and both
  indices are clamped to the buffer. \<^verbatim>\<open>buf.slice(start)\<close> ends at the length.
\<close>

definition Buffer_slice :: "int \<Rightarrow> int \<Rightarrow> Buffer \<Rightarrow> Buffer" where
  "Buffer_slice start fin buf =
     (let len = int (length buf);
          s = (if start < 0 then max (len + start) 0 else min start len);
          e = (if fin < 0 then max (len + fin) 0 else min fin len)
      in take (nat (e - s)) (drop (nat s) buf))"

definition Buffer_slice_from :: "int \<Rightarrow> Buffer \<Rightarrow> Buffer" where
  "Buffer_slice_from start buf = Buffer_slice start (int (length buf)) buf"

text \<open>
  \<^verbatim>\<open>buf.join('')\<close> is the join of a typed array: every byte is written as its
  decimal numeral and the numerals are put one after the other.
\<close>

definition digit_char :: "nat \<Rightarrow> char" where
  "digit_char d = ''0123456789'' ! d"

function decimal :: "nat \<Rightarrow> string" where
  "decimal n = (if n < 10 then [digit_char n] else decimal (n div 10) @ [digit_char (n mod 10)])"
  by pat_completeness auto
termination
  by (relation "measure (\<lambda>n. n)") auto

declare decimal.simps [simp del]

definition Buffer_join :: "Buffer \<Rightarrow> string" where
  "Buffer_join buf = concat (map (\<lambda>b. decimal (unat b)) buf)"

text \<open>
  \<^verbatim>\<open>BigInteger.fromBuffer(buf)\<close> reads the bytes as one unsigned big-endian
  number; \<^verbatim>\<open>isEven()\<close> tests its lowest bit.
\<close>

definition fromBuffer :: "Buffer \<Rightarrow> int" where
  "fromBuffer buf = foldl (\<lambda>acc b. acc * 256 + uint b) 0 buf"

definition isEven :: "int \<Rightarrow> bool" where
  "isEven n = (n mod 2 = 0)"

text \<open>
  \<^verbatim>\<open>BigInteger(str)\<close> with no radix parses in radix 10 with the loop
  \<^verbatim>\<open>fromRadix\<close> of the package: a character is read through \<^verbatim>\<open>intAt\<close>
  (digits, and letters with the values 10 to 35), a character without a value is
  skipped, the digits are gathered in chunks of seven, and a minus sign met while
  the accumulated number is still zero negates the result:
  \<^verbatim>\<open>
  for (var i = 0; i < s.length; ++i) {
    var x = intAt(s, i)
    if (x < 0) {
      if (s.charAt(i) == "-" && self.signum() == 0) mi = true
      continue
    }
    w = b * w + x
    if (++j >= cs) { self.dMultiply(d); self.dAddOffset(w, 0); j = 0; w = 0 }
  }
  if (j > 0) { self.dMultiply(Math.pow(b, j)); self.dAddOffset(w, 0) }
  if (mi) BigInteger.ZERO.subTo(self, self)
  \<close>
  with \<open>b = 10\<close>, \<open>cs = 7\<close> and \<open>d = 10\<^sup>7\<close>.
\<close>

definition intAt :: "char \<Rightarrow> int" where
  "intAt c =
     (let n = (of_char c :: nat)
      in if 48 \<le> n \<and> n \<le> 57 then int n - 48
         else if 97 \<le> n \<and> n \<le> 122 then int n - 87
         else if 65 \<le> n \<and> n \<le> 90 then int n - 55
         else - 1)"

fun fromRadix_loop :: "string \<Rightarrow> int \<times> int \<times> nat \<times> bool \<Rightarrow> int \<times> int \<times> nat \<times> bool" where
  "fromRadix_loop [] st = st"
| "fromRadix_loop (c # cs) (self, w, j, mi) =
     (if intAt c < 0
      then fromRadix_loop cs (self, w, j, (if c = CHR ''-'' \<and> self = 0 then True else mi))
      else if 7 \<le> j + 1
           then fromRadix_loop cs (self * 10 ^ 7 + (10 * w + intAt c), 0, 0, mi)
           else fromRadix_loop cs (self, 10 * w + intAt c, j + 1, mi))"

definition BigInteger_str :: "string \<Rightarrow> int" where
  "BigInteger_str s =
     (case fromRadix_loop s (0, 0, 0, False) of
        (self, w, j, mi) \<Rightarrow>
          (let r = (if 0 < j then self * 10 ^ j + w else self)
           in if mi then 0 - r else r))"

text \<open>
  \<^verbatim>\<open>parseInt(str)\<close>: leading white space is dropped, a sign is read, the
  prefix \<^verbatim>\<open>0x\<close> selects radix 16, and the longest run of digits of the radix is
  the number; with no digit the result is \<^verbatim>\<open>NaN\<close>, here \<^const>\<open>None\<close>. The
  value is the exact integer; the JavaScript number is the double nearest to it.
\<close>

definition isWhiteSpace :: "char \<Rightarrow> bool" where
  "isWhiteSpace c = ((of_char c :: nat) \<in> {9, 10, 11, 12, 13, 32, 160})"

definition radixDigit :: "nat \<Rightarrow> char \<Rightarrow> bool" where
  "radixDigit R c = (0 \<le> intAt c \<and> intAt c < int R)"

definition radixValue :: "nat \<Rightarrow> string \<Rightarrow> int" where
  "radixValue R z = foldl (\<lambda>acc c. acc * int R + intAt c) 0 z"

definition parseInt :: "string \<Rightarrow> int option" where
  "parseInt str =
     (let s0 = dropWhile isWhiteSpace str;
          neg = (case s0 of c # r \<Rightarrow> c = CHR ''-'' | [] \<Rightarrow> False);
          s1 = (case s0 of c # r \<Rightarrow> (if c = CHR ''-'' \<or> c = CHR ''+'' then r else s0) | [] \<Rightarrow> []);
          hex = (case s1 of a # b # r \<Rightarrow> a = CHR ''0'' \<and> (b = CHR ''x'' \<or> b = CHR ''X'') | _ \<Rightarrow> False);
          R = (if hex then 16 else 10);
          s2 = (if hex then drop 2 s1 else s1);
          z = takeWhile (radixDigit R) s2
      in if z = [] then None
         else Some ((if neg then - 1 else 1) * radixValue R z))"

text \<open>
  The test \<^verbatim>\<open>parseInt(bit) % 2 === 1\<close> of the constructor. The remainder of
  JavaScript has the sign of the dividend; \<^verbatim>\<open>NaN % 2\<close> is \<^verbatim>\<open>NaN\<close>; and a
  double of magnitude \<open>2\<^sup>5\<^sup>3\<close> or more is an even integer, so that the
  remainder of such a number is zero whatever the digits were.
\<close>

definition js_rem :: "int \<Rightarrow> int \<Rightarrow> int" where
  "js_rem a b = sgn a * (\<bar>a\<bar> mod \<bar>b\<bar>)"

definition rem2_is_1 :: "int option \<Rightarrow> bool" where
  "rem2_is_1 v =
     (case v of
        None \<Rightarrow> False
      | Some n \<Rightarrow> (if \<bar>n\<bar> < 2 ^ 53 then js_rem n 2 = 1 else False))"

definition yBitIsOdd :: "string \<Rightarrow> bool" where
  "yBitIsOdd ybit = rem2_is_1 (parseInt ybit)"

section \<open>The curve secp256k1 and its points\<close>

text \<open>
  \<^verbatim>\<open>ecparams = ecurve.getCurveByName('secp256k1')\<close>: the curve
  \<open>y\<^sup>2 = x\<^sup>3 + a x + b\<close> over the field of \<open>p\<close> elements, with the constants of
  the package. \<^verbatim>\<open>pOverFour\<close> is \<open>(p + 1) >> 2\<close>.
\<close>

definition secp256k1_p :: int where
  "secp256k1_p = 0xFFFFFFFFFFFFFFFFFFFFFFFFFFFFFFFFFFFFFFFFFFFFFFFFFFFFFFFEFFFFFC2F"

definition secp256k1_a :: int where
  "secp256k1_a = 0"

definition secp256k1_b :: int where
  "secp256k1_b = 7"

definition pOverFour :: int where
  "pOverFour = (secp256k1_p + 1) div 4"

text \<open>
  A point made by \<^verbatim>\<open>Point.fromAffine(curve, x, y)\<close> keeps the two coordinates as
  they are given (its third, projective coordinate is one). The getters
  \<^verbatim>\<open>affineX\<close> and \<^verbatim>\<open>affineY\<close> reduce them modulo \<open>p\<close>.
\<close>

record Point =
  pt_x :: int
  pt_y :: int

definition affineX :: "Point \<Rightarrow> int" where
  "affineX P = pt_x P mod secp256k1_p"

definition affineY :: "Point \<Rightarrow> int" where
  "affineY P = pt_y P mod secp256k1_p"

text \<open>
  \<^verbatim>\<open>alpha.modPow(e, m)\<close>, by squaring and multiplying.
\<close>

definition sqrMod :: "int \<Rightarrow> int \<Rightarrow> int" where
  "sqrMod h m = h * h mod m"

function modPow :: "int \<Rightarrow> int \<Rightarrow> int \<Rightarrow> int" where
  "modPow b e m =
     (if e \<le> 0 then 1
      else if even e then sqrMod (modPow b (e div 2) m) m
      else sqrMod (modPow b (e div 2) m) m * b mod m)"
  by pat_completeness auto
termination
  by (relation "measure (\<lambda>(b, e, m). nat e)") auto

declare modPow.simps [simp del]

text \<open>
  \<^verbatim>\<open>Curve.prototype.pointFromX(isOdd, x)\<close> of \<^verbatim>\<open>ecurve\<close>:
  \<^verbatim>\<open>
  var alpha = x.pow(3).add(this.a.multiply(x)).add(this.b).mod(this.p)
  var beta = alpha.modPow(this.pOverFour, this.p)
  var y = beta
  if (beta.isEven() ^ !isOdd) { y = this.p.subtract(y) }
  return Point.fromAffine(this, x, y)
  \<close>
  There is no test that \<open>beta\<close> is a square root of \<open>alpha\<close>, and no failure.
\<close>

definition pointFromX :: "bool \<Rightarrow> int \<Rightarrow> Point" where
  "pointFromX isOdd x =
     (let alpha = (x ^ 3 + secp256k1_a * x + secp256k1_b) mod secp256k1_p;
          beta = modPow alpha pOverFour secp256k1_p;
          y = (if isEven beta \<noteq> (\<not> isOdd) then secp256k1_p - beta else beta)
      in \<lparr>pt_x = x, pt_y = y\<rparr>)"

text \<open>
  \<^verbatim>\<open>Curve.prototype.isOnCurve\<close>: the affine coordinates satisfy the equation
  of the curve.
\<close>

definition isOnCurve :: "Point \<Rightarrow> bool" where
  "isOnCurve P =
     (let x = affineX P; y = affineY P
      in y * y mod secp256k1_p
           = (x ^ 3 + secp256k1_a * x + secp256k1_b) mod secp256k1_p)"

text \<open>
  \<^verbatim>\<open>n.toBuffer(size)\<close>: the big-endian bytes of a number that is not negative,
  padded with zero bytes on the left up to the size; and
  \<^verbatim>\<open>P.getEncoded(false)\<close>: the byte \<open>0x04\<close>, then the affine \<open>X\<close> and the
  affine \<open>Y\<close> in 32 bytes each.
\<close>

function toByteArrayUnsigned :: "int \<Rightarrow> Buffer" where
  "toByteArrayUnsigned n =
     (if n \<le> 0 then [] else toByteArrayUnsigned (n div 256) @ [word_of_int (n mod 256)])"
  by pat_completeness auto
termination
  by (relation "measure (\<lambda>n. nat n)") auto

declare toByteArrayUnsigned.simps [simp del]

definition toBuffer :: "nat \<Rightarrow> int \<Rightarrow> Buffer" where
  "toBuffer sz n =
     (let byteArray = toByteArrayUnsigned n
      in replicate (sz - length byteArray) 0 @ byteArray)"

definition getEncoded :: "Point \<Rightarrow> Buffer" where
  "getEncoded P = 4 # toBuffer 32 (affineX P) @ toBuffer 32 (affineY P)"

section \<open>The coin record\<close>

text \<open>
  The on-chain record \<^verbatim>\<open>UTXOType\<close>: under the key \<open>0\<close> the three
  X-coordinates \<^verbatim>\<open>[commitmentX, pubkeyX, txPubX]\<close>, under \<open>1\<close> the three parity
  fields \<^verbatim>\<open>[commitmentYBit, pubkeyYBit, txPubYBit]\<close>, under \<open>2\<close> the two
  ciphertexts \<^verbatim>\<open>[EncryptedAmount, EncryptedMask]\<close>, under \<open>3\<close> the index.
\<close>

record UTXOType =
  utxo_0 :: "string \<times> string \<times> string"
  utxo_1 :: "string \<times> string \<times> string"
  utxo_2 :: "string \<times> string"
  utxo_3 :: int

text \<open>
  The type \<^verbatim>\<open>Proof\<close>, the result of generating a coin. Its fields
  \<^verbatim>\<open>mask\<close> and \<^verbatim>\<open>index\<close> are \<open>proof_mask\<close> and \<open>proof_index\<close> here.
\<close>

record Proof =
  onetimeAddress :: Buffer
  txPublicKey :: Buffer
  encryptedAmount :: string
  proof_mask :: string
  commitment :: Buffer
  encryptedMask :: string
  proof_index :: int

text \<open>
  The fields of the class \<^verbatim>\<open>UTXO\<close>. The field \<^verbatim>\<open>mask\<close> is \<open>mask_ct\<close>
  here (it holds the ciphertext of the mask). The three fields that only
  \<^verbatim>\<open>checkOwnership\<close> assigns are undefined, here \<^const>\<open>None\<close>, until then.
\<close>

record UTXO =
  commitmentX :: string
  commitmentYBit :: string
  pubkeyX :: string
  pubkeyYBit :: string
  amount :: string
  mask_ct :: string
  txPubX :: string
  txPubYBit :: string
  index :: int
  lfStealth :: Point
  lfTxPublicKey :: Point
  lfCommitment :: Point
  decodedAmount :: "string option"
  decodedMask :: "string option"
  privKey :: "string option"

text \<open>
  What \<^verbatim>\<open>checkTransactionProof\<close> returns for a coin of the key: the object
  \<^verbatim>\<open>{amount, mask, privKey, pubKey}\<close>.
\<close>

record 'pub DecodedData =
  dd_amount :: string
  dd_mask :: string
  dd_privKey :: string
  dd_pubKey :: 'pub

text \<open>
  An exception: the \<^verbatim>\<open>AssertionError\<close> of \<^verbatim>\<open>assert\<close> with its message, or
  whatever one of the functions called throws.
\<close>

datatype error = AssertionError string | Thrown string

text \<open>
  The functions of the modules \<^verbatim>\<open>./address\<close>, \<^verbatim>\<open>./stealth\<close> and
  \<^verbatim>\<open>./common\<close> and of the package \<^verbatim>\<open>elliptic\<close> that the class calls. Their
  code is not part of \<^verbatim>\<open>src/utxo.js\<close>; every operation below takes them as a
  parameter, each one a function that returns a value or throws.
  \<open>checkTransactionProof keys\<close> stands for
  \<^verbatim>\<open>new Stealth({...keys}).checkTransactionProof\<close>, whose result is an object or
  \<^verbatim>\<open>null\<close>, and \<open>key_sign\<close> for \<^verbatim>\<open>key.sign\<close>. What \<^verbatim>\<open>hextobin\<close>
  returns is of a type of its own, \<open>'bin\<close>: an item of the array handed to
  \<^verbatim>\<open>bconcat\<close> is a \<^verbatim>\<open>Buffer\<close>, \<^const>\<open>Inl\<close>, or such a value,
  \<^const>\<open>Inr\<close>.
\<close>

record ('keys, 'pub, 'bin, 'key, 'sig) collaborators =
  generateKeys :: "string \<Rightarrow> error + 'keys"
  checkTransactionProof ::
    "'keys \<Rightarrow> Buffer \<Rightarrow> Buffer \<Rightarrow> string \<Rightarrow> string \<Rightarrow> error + 'pub DecodedData option"
  numberToHex :: "string \<Rightarrow> error + string"
  hextobin :: "string \<Rightarrow> error + 'bin"
  bconcat :: "(Buffer + 'bin) list \<Rightarrow> Buffer"
  bintohex :: "Buffer \<Rightarrow> string"
  soliditySha3 :: "string \<Rightarrow> string"
  keyFromPrivate :: "string \<Rightarrow> error + 'key"
  key_sign :: "'key \<Rightarrow> string \<Rightarrow> error + 'sig"

text \<open>
  Modelled from the spec: the function \<^verbatim>\<open>bconcat\<close> of \<^verbatim>\<open>./common\<close>, whose code
  is not among the sources. The spec has the digest taken over
  \<open>(commitment \<parallel> one-time address \<parallel> destinationAddress)\<close>, "encoded as
  concatenated raw point/address bytes": the bytes of the items, one item after
  the other, where \<open>bytes\<close> gives the bytes of an item that is not a
  \<^verbatim>\<open>Buffer\<close>.
\<close>

definition bconcat_spec :: "('bin \<Rightarrow> Buffer) \<Rightarrow> (Buffer + 'bin) list \<Rightarrow> Buffer" where
  "bconcat_spec bytes items = concat (map (case_sum (\<lambda>buf. buf) bytes) items)"

subsection \<open>The constructor\<close>

definition UTXO_constructor ::
  "('keys, 'pub, 'bin, 'key, 'sig) collaborators \<Rightarrow> UTXOType \<Rightarrow> error + UTXO" where
  "UTXO_constructor env utxo =
     (case utxo_0 utxo of (cX, pX, tX) \<Rightarrow>
      case utxo_1 utxo of (cBit, pBit, tBit) \<Rightarrow>
      case utxo_2 utxo of (encAmount, encMask) \<Rightarrow>
        (case numberToHex env encAmount of
           Inl e \<Rightarrow> Inl e
         | Inr a \<Rightarrow>
            (case numberToHex env encMask of
               Inl e \<Rightarrow> Inl e
             | Inr m \<Rightarrow>
                 Inr \<lparr>commitmentX = cX, commitmentYBit = cBit,
                      pubkeyX = pX, pubkeyYBit = pBit,
                      amount = a, mask_ct = m,
                      txPubX = tX, txPubYBit = tBit,
                      index = utxo_3 utxo,
                      lfStealth = pointFromX (yBitIsOdd pBit) (BigInteger_str pX),
                      lfTxPublicKey = pointFromX (yBitIsOdd tBit) (BigInteger_str tX),
                      lfCommitment = pointFromX (yBitIsOdd cBit) (BigInteger_str cX),
                      decodedAmount = None, decodedMask = None, privKey = None\<rparr>)))"

subsection \<open>The ownership test\<close>

text \<open>
  A method that changes the object returns its result, or the exception it
  throws, together with the object after the call and the assignments to the
  three decoded fields that the call has run, in the order of the program.
\<close>

datatype field = DecodedAmount | DecodedMask | PrivKey

fun assign :: "field \<Rightarrow> string \<Rightarrow> UTXO \<times> (field \<times> string) list \<Rightarrow> UTXO \<times> (field \<times> string) list" where
  "assign DecodedAmount v (u, ws) = (u\<lparr>decodedAmount := Some v\<rparr>, ws @ [(DecodedAmount, v)])"
| "assign DecodedMask v (u, ws) = (u\<lparr>decodedMask := Some v\<rparr>, ws @ [(DecodedMask, v)])"
| "assign PrivKey v (u, ws) = (u\<lparr>privKey := Some v\<rparr>, ws @ [(PrivKey, v)])"

definition checkOwnership ::
  "('keys, 'pub, 'bin, 'key, 'sig) collaborators \<Rightarrow> string \<Rightarrow> UTXO
     \<Rightarrow> (error + 'pub DecodedData option) \<times> UTXO \<times> (field \<times> string) list" where
  "checkOwnership env privateSpendKey u =
     (case generateKeys env privateSpendKey of
        Inl e \<Rightarrow> (Inl e, u, [])
      | Inr keys \<Rightarrow>
         (case checkTransactionProof env keys
                 (getEncoded (lfTxPublicKey u)) (getEncoded (lfStealth u))
                 (amount u) (mask_ct u) of
            Inl e \<Rightarrow> (Inl e, u, [])
          | Inr None \<Rightarrow> (Inr None, u, [])
          | Inr (Some decodedData) \<Rightarrow>
              (Inr (Some decodedData),
               assign PrivKey (dd_privKey decodedData)
                 (assign DecodedMask (dd_mask decodedData)
                   (assign DecodedAmount (dd_amount decodedData) (u, []))))))"

definition not_belongs :: string where
  "not_belongs = '' Can'' @ [CHR 0x27] @ ''t decode utxo that not belongs''"

definition getRingCTKeys ::
  "('keys, 'pub, 'bin, 'key, 'sig) collaborators \<Rightarrow> string \<Rightarrow> UTXO
     \<Rightarrow> (error + string \<times> 'pub) \<times> UTXO \<times> (field \<times> string) list" where
  "getRingCTKeys env privateSpendKey u =
     (case checkOwnership env privateSpendKey u of
        (Inl e, u', ws) \<Rightarrow> (Inl e, u', ws)
      | (Inr None, u', ws) \<Rightarrow> (Inl (AssertionError not_belongs), u', ws)
      | (Inr (Some decodedUTXO), u', ws) \<Rightarrow>
          (Inr (dd_privKey decodedUTXO, dd_pubKey decodedUTXO), u', ws))"

subsection \<open>The digest and the signature\<close>

definition getHashData ::
  "('keys, 'pub, 'bin, 'key, 'sig) collaborators \<Rightarrow> string \<Rightarrow> UTXO \<Rightarrow> error + string" where
  "getHashData env targetAddress u =
     (case hextobin env targetAddress of
        Inl e \<Rightarrow> Inl e
      | Inr target \<Rightarrow>
          Inr (soliditySha3 env
                 (bintohex env
                    (bconcat env
                       [Inl (getEncoded (lfCommitment u)), Inl (getEncoded (lfStealth u)),
                        Inr target]))))"

definition sign ::
  "('keys, 'pub, 'bin, 'key, 'sig) collaborators \<Rightarrow> string \<Rightarrow> string \<Rightarrow> UTXO \<Rightarrow> error + 'sig" where
  "sign env privateKey targetAddress u =
     (case keyFromPrivate env privateKey of
        Inl e \<Rightarrow> Inl e
      | Inr key \<Rightarrow>
         (case getHashData env targetAddress u of
            Inl e \<Rightarrow> Inl e
          | Inr context \<Rightarrow> key_sign env key context))"

subsection \<open>A coin from a proof\<close>

text \<open>
  The parity field that \<^verbatim>\<open>fromProof\<close> makes for a point of the proof:
  \<^verbatim>\<open>BigInteger.fromBuffer(point.slice(-33)).isEven() ? '0' : '1'\<close>.
\<close>

definition yBitOf :: "Buffer \<Rightarrow> string" where
  "yBitOf lfPoint = (if isEven (fromBuffer (Buffer_slice_from (- 33) lfPoint)) then ''0'' else ''1'')"

definition fromProof ::
  "('keys, 'pub, 'bin, 'key, 'sig) collaborators \<Rightarrow> Proof \<Rightarrow> error + UTXO" where
  "fromProof env prf =
     UTXO_constructor env
       \<lparr>utxo_0 = (Buffer_join (Buffer_slice 1 33 (commitment prf)),
                  Buffer_join (Buffer_slice 1 33 (onetimeAddress prf)),
                  Buffer_join (Buffer_slice 1 33 (txPublicKey prf))),
        utxo_1 = (yBitOf (commitment prf),
                  yBitOf (onetimeAddress prf),
                  yBitOf (txPublicKey prf)),
        utxo_2 = (encryptedAmount prf, encryptedMask prf),
        utxo_3 = proof_index prf\<rparr>"

subsection \<open>The life of an instance\<close>

text \<open>
  The calls that test ownership, made one after the other on the same instance:
  the caller catches what a call throws, and the instance goes on to the next
  call. The run returns the instance at the end and all the assignments made.
\<close>

datatype call = CheckOwnership string | GetRingCTKeys string

fun call_key :: "call \<Rightarrow> string" where
  "call_key (CheckOwnership k) = k"
| "call_key (GetRingCTKeys k) = k"

fun run_call ::
  "('keys, 'pub, 'bin, 'key, 'sig) collaborators \<Rightarrow> call \<Rightarrow> UTXO \<Rightarrow> UTXO \<times> (field \<times> string) list" where
  "run_call env (CheckOwnership k) u = snd (checkOwnership env k u)"
| "run_call env (GetRingCTKeys k) u = snd (getRingCTKeys env k u)"

fun lifetime ::
  "('keys, 'pub, 'bin, 'key, 'sig) collaborators \<Rightarrow> call list \<Rightarrow> UTXO \<Rightarrow> UTXO \<times> (field \<times> string) list" where
  "lifetime env [] u = (u, [])"
| "lifetime env (c # cs) u =
     (case run_call env c u of
        (u', ws) \<Rightarrow> (case lifetime env cs u' of (u'', ws') \<Rightarrow> (u'', ws @ ws')))"

definition writes_to :: "field \<Rightarrow> (field \<times> string) list \<Rightarrow> nat" where
  "writes_to f ws = length (filter (\<lambda>w. fst w = f) ws)"

text \<open>
  The key owns the coin: the keys are generated and the stealth engine returns
  an object for them.
\<close>

definition owns :: "('keys, 'pub, 'bin, 'key, 'sig) collaborators \<Rightarrow> UTXO \<Rightarrow> string \<Rightarrow> bool" where
  "owns env u k =
     (case generateKeys env k of
        Inl e \<Rightarrow> False
      | Inr keys \<Rightarrow>
         (case checkTransactionProof env keys
                 (getEncoded (lfTxPublicKey u)) (getEncoded (lfStealth u))
                 (amount u) (mask_ct u) of
            Inr (Some d) \<Rightarrow> True
          | _ \<Rightarrow> False))"

section \<open>Reference notions\<close>

text \<open>
  The parity that a parity field stands for when it is read as an integer: odd
  for a field that \<^verbatim>\<open>parseInt\<close> reads as an odd integer from \<open>0\<close> up to
  \<open>2\<^sup>5\<^sup>3\<close>, even for every other field.
\<close>

definition parityOf :: "string \<Rightarrow> bool" where
  "parityOf ybit =
     (case parseInt ybit of
        None \<Rightarrow> False
      | Some n \<Rightarrow> 0 \<le> n \<and> n < 2 ^ 53 \<and> odd n)"

definition decimalNumeral :: "string \<Rightarrow> bool" where
  "decimalNumeral s = (s \<noteq> [] \<and> list_all (radixDigit 10) s)"

text \<open>
  The candidate root that \<^const>\<open>pointFromX\<close> computes for an X-coordinate.
\<close>

definition alphaOf :: "int \<Rightarrow> int" where
  "alphaOf x = (x ^ 3 + secp256k1_a * x + secp256k1_b) mod secp256k1_p"

definition betaOf :: "int \<Rightarrow> int" where
  "betaOf x = modPow (alphaOf x) pOverFour secp256k1_p"

text \<open>
  An uncompressed encoding: 65 bytes, the first one \<open>0x04\<close>, then \<open>X\<close> and
  \<open>Y\<close> below \<open>p\<close> in 32 bytes each, of a point of the curve.
\<close>

definition decodedX :: "Buffer \<Rightarrow> int" where
  "decodedX buf = fromBuffer (Buffer_slice 1 33 buf)"

definition decodedY :: "Buffer \<Rightarrow> int" where
  "decodedY buf = fromBuffer (Buffer_slice 33 65 buf)"

definition validEncoding :: "Buffer \<Rightarrow> bool" where
  "validEncoding buf =
     (length buf = 65 \<and> buf ! 0 = 4
      \<and> decodedX buf < secp256k1_p \<and> decodedY buf < secp256k1_p
      \<and> isOnCurve \<lparr>pt_x = decodedX buf, pt_y = decodedY buf\<rparr>)"

text \<open>
  What the constructor makes of an X-coordinate field and a parity field: the
  point has the X-coordinate that \<^verbatim>\<open>BigInteger\<close> reads from the field, which
  for a decimal numeral is its value; its Y-coordinate is the candidate root
  \<open>\<beta> = (x\<^sup>3 + 7)\<^bsup>(p+1)/4\<^esup> mod p\<close>, or \<open>p - \<beta>\<close> when the parity of \<open>\<beta>\<close>
  is not the one that the test of the parity field asks for, so that it is odd
  exactly when the test holds; and the point is on the curve exactly when the
  candidate root squares to \<open>x\<^sup>3 + 7\<close> modulo \<open>p\<close>.
\<close>

definition decodes :: "string \<Rightarrow> string \<Rightarrow> Point \<Rightarrow> bool" where
  "decodes X ybit P =
     (pt_x P = BigInteger_str X
      \<and> (decimalNumeral X \<longrightarrow> pt_x P = radixValue 10 X)
      \<and> betaOf (pt_x P) = (pt_x P ^ 3 + 7) ^ nat ((secp256k1_p + 1) div 4) mod secp256k1_p
      \<and> pt_y P = (if even (betaOf (pt_x P)) = yBitIsOdd ybit
                  then secp256k1_p - betaOf (pt_x P) else betaOf (pt_x P))
      \<and> (pt_y P = betaOf (pt_x P) \<or> pt_y P = secp256k1_p - betaOf (pt_x P))
      \<and> odd (pt_y P) = yBitIsOdd ybit
      \<and> isOnCurve P = (sqrMod (betaOf (pt_x P)) secp256k1_p = alphaOf (pt_x P)))"

section \<open>An instance of the functions called\<close>

text \<open>
  The theorems hold for every value of the parameters. The examples need one
  value; the one below is chosen for them and is not the code of the modules
  it stands for. Its \<open>numberToHex\<close> writes a decimal numeral, or a hexadecimal
  numeral with the prefix \<^verbatim>\<open>0x\<close>, in radix 16 after \<^verbatim>\<open>0x\<close>, and throws on
  every other string. Its \<open>hextobin\<close> and \<open>bintohex\<close> read and write two
  hexadecimal digits for a byte, and its \<open>bconcat\<close> joins the bytes of the
  items. Its stealth engine knows one owner key and returns a fixed object for
  it and \<^verbatim>\<open>null\<close> for any other key. Its digest and its signature are
  symbolic: the digest of a string is the string marked as hashed, and the
  signature is the pair of the key and the message signed.
\<close>

definition hexDigit :: "nat \<Rightarrow> char" where
  "hexDigit d = ''0123456789abcdef'' ! d"

function hexString :: "nat \<Rightarrow> string" where
  "hexString n = (if n < 16 then [hexDigit n] else hexString (n div 16) @ [hexDigit (n mod 16)])"
  by pat_completeness auto
termination
  by (relation "measure (\<lambda>n. n)") auto

declare hexString.simps [simp del]

definition isHexStrict :: "string \<Rightarrow> bool" where
  "isHexStrict s =
     (case s of
        a # b # r \<Rightarrow> a = CHR ''0'' \<and> b = CHR ''x'' \<and> list_all (radixDigit 16) r
      | _ \<Rightarrow> False)"

definition demo_numberToHex :: "string \<Rightarrow> error + string" where
  "demo_numberToHex v =
     (if isHexStrict v then Inr (''0x'' @ hexString (nat (radixValue 16 (drop 2 v))))
      else if decimalNumeral v then Inr (''0x'' @ hexString (nat (radixValue 10 v)))
      else Inl (Thrown ''not a number''))"

fun hexPairs :: "string \<Rightarrow> Buffer" where
  "hexPairs (a # b # r) = word_of_int (radixValue 16 [a, b]) # hexPairs r"
| "hexPairs r = []"

definition hextobin_model :: "string \<Rightarrow> error + Buffer" where
  "hextobin_model hex =
     (if length hex mod 2 \<noteq> 0 then Inl (Thrown ''Hex string has invalid length!'')
      else Inr (hexPairs hex))"

definition bintohex_model :: "Buffer \<Rightarrow> string" where
  "bintohex_model bin = concat (map (\<lambda>b. [hexDigit (unat b div 16), hexDigit (unat b mod 16)]) bin)"

definition demo_env ::
  "string \<Rightarrow> Buffer DecodedData
     \<Rightarrow> (string, Buffer, Buffer, string, string \<times> string) collaborators" where
  "demo_env owner d =
     \<lparr>generateKeys = Inr,
      checkTransactionProof = (\<lambda>keys R P a m. Inr (if keys = owner then Some d else None)),
      numberToHex = demo_numberToHex,
      hextobin = hextobin_model,
      bconcat = bconcat_spec (\<lambda>bin. bin),
      bintohex = bintohex_model,
      soliditySha3 = (\<lambda>s. ''sha3('' @ s @ '')''),
      keyFromPrivate = Inr,
      key_sign = (\<lambda>key msg. Inr (key, msg))\<rparr>"

section \<open>Example data\<close>

text \<open>
  The base point \<open>G\<close> of the curve and its uncompressed encoding; a coin whose
  three points are \<open>G\<close>; the on-chain record and the proof of such a coin; the
  object that the stealth engine of the instance returns to the owner.
\<close>

definition Gx :: int where
  "Gx = 0x79BE667EF9DCBBAC55A06295CE870B07029BFCDB2DCE28D959F2815B16F81798"

definition Gy :: int where
  "Gy = 0x483ADA7726A3C4655DA4FBFC0E1108A8FD17B448A68554199C47D08FFB10D4B8"

definition G_bytes :: Buffer where
  "G_bytes =
     [0x04, 0x79, 0xBE, 0x66, 0x7E, 0xF9, 0xDC, 0xBB, 0xAC, 0x55, 0xA0,
      0x62, 0x95, 0xCE, 0x87, 0x0B, 0x07, 0x02, 0x9B, 0xFC, 0xDB, 0x2D,
      0xCE, 0x28, 0xD9, 0x59, 0xF2, 0x81, 0x5B, 0x16, 0xF8, 0x17, 0x98,
      0x48, 0x3A, 0xDA, 0x77, 0x26, 0xA3, 0xC4, 0x65, 0x5D, 0xA4, 0xFB,
      0xFC, 0x0E, 0x11, 0x08, 0xA8, 0xFD, 0x17, 0xB4, 0x48, 0xA6, 0x85,
      0x54, 0x19, 0x9C, 0x47, 0xD0, 0x8F, 0xFB, 0x10, 0xD4, 0xB8]"

definition demo_decoded :: "Buffer DecodedData" where
  "demo_decoded =
     \<lparr>dd_amount = ''199900000'', dd_mask = ''2a'', dd_privKey = ''0b'', dd_pubKey = G_bytes\<rparr>"

definition demo :: "(string, Buffer, Buffer, string, string \<times> string) collaborators" where
  "demo = demo_env ''01'' demo_decoded"

definition demo_record :: UTXOType where
  "demo_record =
     \<lparr>utxo_0 = (''55066263022277343669578718895168534326250603453777594175500187360389116729240'', ''55066263022277343669578718895168534326250603453777594175500187360389116729240'', ''55066263022277343669578718895168534326250603453777594175500187360389116729240''),
      utxo_1 = (''0'', ''2'', ''3''),
      utxo_2 = (''0x00ff'', ''255''),
      utxo_3 = 7\<rparr>"

definition demo_utxo :: UTXO where
  "demo_utxo =
     \<lparr>commitmentX = ''55066263022277343669578718895168534326250603453777594175500187360389116729240'',
      commitmentYBit = ''0'',
      pubkeyX = ''55066263022277343669578718895168534326250603453777594175500187360389116729240'',
      pubkeyYBit = ''0'',
      amount = ''0xff'', mask_ct = ''0x10'',
      txPubX = ''55066263022277343669578718895168534326250603453777594175500187360389116729240'',
      txPubYBit = ''0'',
      index = 7,
      lfStealth = \<lparr>pt_x = Gx, pt_y = Gy\<rparr>,
      lfTxPublicKey = \<lparr>pt_x = Gx, pt_y = Gy\<rparr>,
      lfCommitment = \<lparr>pt_x = Gx, pt_y = Gy\<rparr>,
      decodedAmount = None, decodedMask = None, privKey = None\<rparr>"

definition demo_proof :: Proof where
  "demo_proof =
     \<lparr>onetimeAddress = G_bytes, txPublicKey = G_bytes,
      encryptedAmount = ''0x1f'', proof_mask = ''2a'',
      commitment = G_bytes, encryptedMask = ''0x2e'', proof_index = 0\<rparr>"

text \<open>
  A record whose one-time address has the X-coordinate \<open>p - 2\<close>, and a record
  whose parity fields are \<^verbatim>\<open>'-1'\<close>.
\<close>

definition off_curve_record :: UTXOType where
  "off_curve_record =
     \<lparr>utxo_0 = (''1'', ''115792089237316195423570985008687907853269984665640564039457584007908834671661'', ''1''),
      utxo_1 = (''0'', ''0'', ''0''),
      utxo_2 = (''1'', ''1''),
      utxo_3 = 0\<rparr>"

definition negative_bit_record :: UTXOType where
  "negative_bit_record =
     \<lparr>utxo_0 = (''1'', ''1'', ''1''),
      utxo_1 = (''-1'', ''-1'', ''-1''),
      utxo_2 = (''1'', ''1''),
      utxo_3 = 0\<rparr>"

section \<open>Buffers and numbers\<close>

lemma fromBuffer_foldl:
  "foldl (\<lambda>acc b. acc * 256 + uint (b::byte)) a bs
     = a * 256 ^ length bs + foldl (\<lambda>acc b. acc * 256 + uint b) 0 bs"
proof (induction bs arbitrary: a)
  case Nil
  then show ?case by simp
next
  case (Cons b bs)
  define f where "f = (\<lambda>acc (b::byte). acc * 256 + uint b)"
  have "foldl f (a * 256 + uint b) bs = (a * 256 + uint b) * 256 ^ length bs + foldl f 0 bs"
    unfolding f_def by (rule Cons.IH)
  moreover have "foldl f (uint b) bs = uint b * 256 ^ length bs + foldl f 0 bs"
    unfolding f_def by (rule Cons.IH)
  ultimately have "foldl f (a * 256 + uint b) bs = a * 256 ^ Suc (length bs) + foldl f (uint b) bs"
    by (simp add: algebra_simps)
  then show ?case
    by (simp add: f_def)
qed

lemma fromBuffer_Cons: "fromBuffer (b # bs) = uint b * 256 ^ length bs + fromBuffer bs"
  using fromBuffer_foldl [of "uint b" bs] by (simp add: fromBuffer_def)

lemma slice_from_33:
  "length buf = 65 \<Longrightarrow> Buffer_slice_from (- 33) buf = buf ! 32 # Buffer_slice 33 65 buf"
  using Cons_nth_drop_Suc [of 32 buf] by (simp add: Buffer_slice_from_def Buffer_slice_def)

lemma last33_value:
  assumes "length buf = 65"
  shows "fromBuffer (Buffer_slice_from (- 33) buf) = uint (buf ! 32) * 2 ^ 256 + decodedY buf"
proof -
  have len: "length (Buffer_slice 33 65 buf) = 32"
    using assms by (simp add: Buffer_slice_def)
  have "(256::int) ^ 32 = 2 ^ 256" by simp
  then show ?thesis
    using assms by (simp add: slice_from_33 fromBuffer_Cons len decodedY_def)
qed

section \<open>The parity bit of a proof\<close>

text \<open>
  C6. For a buffer of 65 bytes, the parity bit that \<^verbatim>\<open>fromProof\<close> computes from
  the last 33 bytes is \<^verbatim>\<open>'0'\<close> exactly when \<open>Y\<close>, the number in the last 32
  bytes, is even, and \<^verbatim>\<open>'1'\<close> exactly when \<open>Y\<close> is odd: the 33 bytes are the
  number \<open>b \<cdot> 2\<^sup>2\<^sup>5\<^sup>6 + Y\<close>, where \<open>b\<close> is the last byte of \<open>X\<close>, and the first
  summand is even.
\<close>

theorem yBitOf_is_parity_of_Y:
  assumes "length buf = 65"
  shows "(yBitOf buf = ''0'') = even (decodedY buf)
       \<and> (yBitOf buf = ''1'') = odd (decodedY buf)
       \<and> fromBuffer (Buffer_slice_from (- 33) buf) = uint (buf ! 32) * 2 ^ 256 + decodedY buf"
proof -
  have v: "fromBuffer (Buffer_slice_from (- 33) buf) = uint (buf ! 32) * 2 ^ 256 + decodedY buf"
    using assms by (rule last33_value)
  have "even (uint (buf ! 32) * 2 ^ 256 + decodedY buf) = even (decodedY buf)"
    by simp
  then have "isEven (fromBuffer (Buffer_slice_from (- 33) buf)) = even (decodedY buf)"
    by (simp add: v isEven_def even_iff_mod_2_eq_zero)
  then show ?thesis
    using v by (simp add: yBitOf_def)
qed

theorem yBitOf_is_parity_of_Y_witness:
  "length G_bytes = 65 \<and> yBitOf G_bytes = ''0'' \<and> even (decodedY G_bytes)"
proof -
  have len: "length G_bytes = 65"
    by (simp add: G_bytes_def)
  have bit: "yBitOf G_bytes = ''0''"
    by (simp add: yBitOf_def isEven_def fromBuffer_def Buffer_slice_from_def Buffer_slice_def
        G_bytes_def)
  show ?thesis
    using yBitOf_is_parity_of_Y [OF len] len bit by simp
qed

section \<open>The encoding of a point\<close>

lemma toByteArrayUnsigned_length:
  "0 \<le> n \<Longrightarrow> n < 256 ^ k \<Longrightarrow> length (toByteArrayUnsigned n) \<le> k"
proof (induction k arbitrary: n)
  case 0
  then have "n = 0" by simp
  then show ?case by (simp add: toByteArrayUnsigned.simps)
next
  case (Suc k)
  show ?case
  proof (cases "n \<le> 0")
    case True
    then show ?thesis by (simp add: toByteArrayUnsigned.simps)
  next
    case False
    have "n < 256 * 256 ^ k" using Suc.prems(2) by simp
    then have "n div 256 < 256 ^ k" by linarith
    moreover have "0 \<le> n div 256" using Suc.prems(1) by simp
    ultimately have "length (toByteArrayUnsigned (n div 256)) \<le> k" using Suc.IH by blast
    then show ?thesis using False by (simp add: toByteArrayUnsigned.simps [of n])
  qed
qed

lemma toBuffer_length:
  "0 \<le> n \<Longrightarrow> n < 256 ^ k \<Longrightarrow> length (toBuffer k n) = k"
  using toByteArrayUnsigned_length [of n k] by (simp add: toBuffer_def Let_def)

lemma p_bound: "secp256k1_p < 256 ^ 32" "0 < secp256k1_p" "1 < secp256k1_p"
  by (simp_all add: secp256k1_p_def)

lemma p_odd: "odd secp256k1_p"
  by (simp add: secp256k1_p_def)

lemma affine_range:
  "0 \<le> affineX P" "affineX P < 256 ^ 32" "0 \<le> affineY P" "affineY P < 256 ^ 32"
proof -
  have b: "0 \<le> v mod secp256k1_p \<and> v mod secp256k1_p < 256 ^ 32" for v
  proof -
    have "0 \<le> v mod secp256k1_p" using p_bound(2) by simp
    moreover have "v mod secp256k1_p < secp256k1_p" using p_bound(2) by simp
    ultimately show ?thesis
      using p_bound(1) by linarith
  qed
  show "0 \<le> affineX P" "affineX P < 256 ^ 32" "0 \<le> affineY P" "affineY P < 256 ^ 32"
    using b [of "pt_x P"] b [of "pt_y P"] by (simp_all add: affineX_def affineY_def)
qed

lemma getEncoded_length: "length (getEncoded P) = 65"
  using toBuffer_length [OF affine_range(1) affine_range(2), of P]
        toBuffer_length [OF affine_range(3) affine_range(4), of P]
  by (simp add: getEncoded_def)

lemma getEncoded_prefix: "getEncoded P ! 0 = 4"
  by (simp add: getEncoded_def)

section \<open>The ownership test\<close>

text \<open>
  C1. \<^verbatim>\<open>checkOwnership(k)\<close> returns what the stealth engine, made from the keys
  generated for \<open>k\<close>, returns for the 65-byte uncompressed encodings (they
  begin with \<open>0x04\<close>) of the
  transaction public key and of the one-time address and the stored ciphertexts
  of the amount and of the mask; and when that is an object, the three decoded
  fields of the instance hold its \<^verbatim>\<open>amount\<close>, \<^verbatim>\<open>mask\<close> and \<^verbatim>\<open>privKey\<close>
  after the call.
\<close>

theorem checkOwnership_delegates:
  "fst (checkOwnership env k u)
     = (case generateKeys env k of
          Inl e \<Rightarrow> Inl e
        | Inr keys \<Rightarrow>
            checkTransactionProof env keys
              (getEncoded (lfTxPublicKey u)) (getEncoded (lfStealth u)) (amount u) (mask_ct u))
   \<and> length (getEncoded (lfTxPublicKey u)) = 65 \<and> getEncoded (lfTxPublicKey u) ! 0 = 4
   \<and> length (getEncoded (lfStealth u)) = 65 \<and> getEncoded (lfStealth u) ! 0 = 4
   \<and> (\<forall>d. fst (checkOwnership env k u) = Inr (Some d) \<longrightarrow>
          decodedAmount (fst (snd (checkOwnership env k u))) = Some (dd_amount d)
        \<and> decodedMask (fst (snd (checkOwnership env k u))) = Some (dd_mask d)
        \<and> privKey (fst (snd (checkOwnership env k u))) = Some (dd_privKey d))"
proof -
  have ret: "fst (checkOwnership env k u)
     = (case generateKeys env k of
          Inl e \<Rightarrow> Inl e
        | Inr keys \<Rightarrow>
            checkTransactionProof env keys
              (getEncoded (lfTxPublicKey u)) (getEncoded (lfStealth u)) (amount u) (mask_ct u))"
    by (simp add: checkOwnership_def split: sum.splits option.splits)
  have set: "decodedAmount (fst (snd (checkOwnership env k u))) = Some (dd_amount d)
        \<and> decodedMask (fst (snd (checkOwnership env k u))) = Some (dd_mask d)
        \<and> privKey (fst (snd (checkOwnership env k u))) = Some (dd_privKey d)"
    if "fst (checkOwnership env k u) = Inr (Some d)" for d
    using that by (auto simp: checkOwnership_def split: sum.splits option.splits)
  show ?thesis
    using ret set by (simp add: getEncoded_length getEncoded_prefix)
qed

theorem checkOwnership_delegates_witness:
  "fst (checkOwnership demo ''01'' demo_utxo) = Inr (Some demo_decoded)
   \<and> decodedAmount (fst (snd (checkOwnership demo ''01'' demo_utxo))) = Some ''199900000''
   \<and> decodedMask (fst (snd (checkOwnership demo ''01'' demo_utxo))) = Some ''2a''
   \<and> privKey (fst (snd (checkOwnership demo ''01'' demo_utxo))) = Some ''0b''"
proof -
  have h: "fst (checkOwnership demo ''01'' demo_utxo) = Inr (Some demo_decoded)"
    by (simp add: checkOwnership_def demo_def demo_env_def)
  show ?thesis
    using checkOwnership_delegates [of demo "''01''" demo_utxo] h
    by (simp add: demo_decoded_def)
qed

text \<open>
  C2, as the code has it. When the key does not own the coin (the keys are
  generated and the stealth engine returns \<^verbatim>\<open>null\<close> for them),
  \<^verbatim>\<open>checkOwnership\<close> returns \<^verbatim>\<open>null\<close>, throws nothing, assigns no field and
  leaves the instance as it was. \<^verbatim>\<open>getRingCTKeys\<close> leaves the instance as it
  was too, but it does not return the mismatch: its \<^verbatim>\<open>assert\<close> throws an
  \<^verbatim>\<open>AssertionError\<close>.
\<close>

theorem ownership_mismatch:
  assumes "generateKeys env k = Inr keys"
      and "checkTransactionProof env keys
             (getEncoded (lfTxPublicKey u)) (getEncoded (lfStealth u)) (amount u) (mask_ct u)
           = Inr None"
  shows "checkOwnership env k u = (Inr None, u, [])
       \<and> getRingCTKeys env k u = (Inl (AssertionError not_belongs), u, [])"
proof -
  have c: "checkOwnership env k u = (Inr None, u, [])"
    using assms by (simp add: checkOwnership_def)
  then show ?thesis
    by (simp add: getRingCTKeys_def)
qed

theorem ownership_mismatch_witness:
  "generateKeys demo ''02'' = Inr ''02''
   \<and> checkTransactionProof demo ''02''
        (getEncoded (lfTxPublicKey demo_utxo)) (getEncoded (lfStealth demo_utxo))
        (amount demo_utxo) (mask_ct demo_utxo) = Inr None
   \<and> checkOwnership demo ''02'' demo_utxo = (Inr None, demo_utxo, [])
   \<and> getRingCTKeys demo ''02'' demo_utxo = (Inl (AssertionError not_belongs), demo_utxo, [])"
proof -
  have g: "generateKeys demo ''02'' = Inr ''02''"
    by (simp add: demo_def demo_env_def)
  have n: "checkTransactionProof demo ''02''
        (getEncoded (lfTxPublicKey demo_utxo)) (getEncoded (lfStealth demo_utxo))
        (amount demo_utxo) (mask_ct demo_utxo) = Inr None"
    by (simp add: demo_def demo_env_def)
  show ?thesis
    using ownership_mismatch [OF g n] g n by simp
qed

text \<open>
  C2, as it is stated, fails for \<^verbatim>\<open>getRingCTKeys\<close>: the key \<^verbatim>\<open>'02'\<close> does not
  own the example coin, and the call throws.
\<close>

theorem getRingCTKeys_mismatch_throws:
  "\<not> owns demo demo_utxo ''02''
   \<and> fst (getRingCTKeys demo ''02'' demo_utxo) = Inl (AssertionError not_belongs)"
  by (simp add: owns_def getRingCTKeys_def checkOwnership_def demo_def demo_env_def)

section \<open>The assignments over the life of an instance\<close>

lemma checkOwnership_writes:
  "writes_to f (snd (snd (checkOwnership env k u))) = (if owns env u k then 1 else 0)"
  by (cases f) (simp_all add: checkOwnership_def owns_def writes_to_def split: sum.splits option.splits)

lemma checkOwnership_keeps:
  "lfTxPublicKey (fst (snd (checkOwnership env k u))) = lfTxPublicKey u"
  "lfStealth (fst (snd (checkOwnership env k u))) = lfStealth u"
  "amount (fst (snd (checkOwnership env k u))) = amount u"
  "mask_ct (fst (snd (checkOwnership env k u))) = mask_ct u"
  by (simp_all add: checkOwnership_def split: sum.splits option.splits)

lemma getRingCTKeys_snd: "snd (getRingCTKeys env k u) = snd (checkOwnership env k u)"
  by (cases "checkOwnership env k u")
     (simp add: getRingCTKeys_def split: sum.splits option.splits prod.splits)

lemma run_call_snd: "run_call env c u = snd (checkOwnership env (call_key c) u)"
  by (cases c) (simp_all add: getRingCTKeys_snd)

lemma run_call_owns: "owns env (fst (run_call env c u)) k = owns env u k"
  by (simp add: run_call_snd owns_def checkOwnership_keeps cong: sum.case_cong)

lemma run_call_writes:
  "writes_to f (snd (run_call env c u)) = (if owns env u (call_key c) then 1 else 0)"
  by (simp add: run_call_snd checkOwnership_writes)

lemma writes_to_append: "writes_to f (ws @ ws') = writes_to f ws + writes_to f ws'"
  by (simp add: writes_to_def)

text \<open>
  C4, as the code has it. Every call of \<^verbatim>\<open>checkOwnership\<close> or
  \<^verbatim>\<open>getRingCTKeys\<close> with a key that owns the coin assigns each of the three
  decoded fields once more, and a call with another key assigns none: over the
  life of an instance each field is written as many times as there are calls
  with an owning key.
\<close>

theorem writes_over_lifetime:
  "writes_to f (snd (lifetime env calls u)) = length (filter (owns env u) (map call_key calls))"
proof (induction calls arbitrary: u)
  case Nil
  show ?case by (simp add: writes_to_def)
next
  case (Cons c cs)
  obtain u' ws where step: "run_call env c u = (u', ws)"
    by (cases "run_call env c u")
  obtain u'' ws' where rest: "lifetime env cs u' = (u'', ws')"
    by (cases "lifetime env cs u'")
  have w: "writes_to f ws = (if owns env u (call_key c) then 1 else 0)"
    using run_call_writes [of f env c u] step by simp
  have o: "owns env u' = owns env u"
    using run_call_owns [of env c u] step by (simp add: fun_eq_iff)
  have "writes_to f ws' = length (filter (owns env u) (map call_key cs))"
    using Cons.IH [of u'] rest o by simp
  then show ?case
    using step rest w by (simp add: writes_to_append)
qed

text \<open>
  C4, as it is stated, fails: two calls with the owner's key write the decoded
  amount twice.
\<close>

theorem decodedAmount_written_twice:
  "writes_to DecodedAmount
     (snd (lifetime demo [CheckOwnership ''01'', CheckOwnership ''01''] demo_utxo)) = 2"
  by (simp add: writes_to_def checkOwnership_def demo_def demo_env_def)

section \<open>Parsing numerals\<close>

lemma radixDigit_10:
  "radixDigit 10 c \<Longrightarrow>
     0 \<le> intAt c \<and> intAt c < 10 \<and> \<not> isWhiteSpace c
     \<and> c \<noteq> CHR ''-'' \<and> c \<noteq> CHR ''+'' \<and> c \<noteq> CHR ''x'' \<and> c \<noteq> CHR ''X''"
  by (auto simp: radixDigit_def intAt_def isWhiteSpace_def Let_def split: if_splits)

lemma parseInt_decimal:
  assumes "decimalNumeral s"
  shows "parseInt s = Some (radixValue 10 s)"
proof -
  obtain c r where s: "s = c # r"
    using assms by (cases s) (simp_all add: decimalNumeral_def)
  have c: "radixDigit 10 c" and r: "list_all (radixDigit 10) r"
    using assms s by (simp_all add: decimalNumeral_def)
  have tw: "takeWhile (radixDigit 10) (c # r) = c # r"
    using c r by (simp add: list_all_iff takeWhile_eq_all_conv)
  have nohex: "\<not> (case c # r of a # b # t \<Rightarrow> a = CHR ''0'' \<and> (b = CHR ''x'' \<or> b = CHR ''X'') | _ \<Rightarrow> False)"
    using r radixDigit_10 by (cases r) auto
  show ?thesis
    using radixDigit_10 [OF c] tw nohex unfolding s parseInt_def Let_def
    by simp
qed

lemma js_rem_2: "(js_rem n 2 = 1) = (0 < n \<and> odd n)"
proof (cases "0 < n")
  case True
  then show ?thesis
    by (simp add: js_rem_def odd_iff_mod_2_eq_one)
next
  case False
  then have "sgn n * (\<bar>n\<bar> mod 2) \<le> 0"
    by (cases "n = 0") (simp_all add: sgn_if mult_le_0_iff)
  then show ?thesis
    using False by (simp add: js_rem_def)
qed

lemma yBitIsOdd_parityOf: "yBitIsOdd ybit = parityOf ybit"
proof (cases "parseInt ybit")
  case None
  then show ?thesis by (simp add: yBitIsOdd_def parityOf_def rem2_is_1_def)
next
  case (Some n)
  have "(if \<bar>n\<bar> < 2 ^ 53 then 0 < n \<and> odd n else False) = (0 \<le> n \<and> n < 2 ^ 53 \<and> odd n)"
    by (cases "n = 0") auto
  then show ?thesis
    using Some by (simp only: yBitIsOdd_def parityOf_def rem2_is_1_def js_rem_2 option.case)
qed

lemma radixValue_foldl:
  "foldl (\<lambda>acc c. acc * int R + intAt c) a cs
     = a * int R ^ length cs + foldl (\<lambda>acc c. acc * int R + intAt c) 0 cs"
proof (induction cs arbitrary: a)
  case Nil
  then show ?case by simp
next
  case (Cons c cs)
  define f where "f = (\<lambda>acc c. acc * int R + intAt c)"
  have "foldl f (a * int R + intAt c) cs = (a * int R + intAt c) * int R ^ length cs + foldl f 0 cs"
    unfolding f_def by (rule Cons.IH)
  moreover have "foldl f (intAt c) cs = intAt c * int R ^ length cs + foldl f 0 cs"
    unfolding f_def by (rule Cons.IH)
  ultimately have "foldl f (a * int R + intAt c) cs = a * int R ^ Suc (length cs) + foldl f (intAt c) cs"
    by (simp add: algebra_simps)
  then show ?case
    by (simp add: f_def)
qed

lemma radixValue_Cons:
  "radixValue R (c # cs) = intAt c * int R ^ length cs + radixValue R cs"
  using radixValue_foldl [of R "intAt c" cs] by (simp add: radixValue_def)

lemma fromRadix_loop_decimal:
  assumes "list_all (radixDigit 10) cs" and "j < 7" and "j = 0 \<longrightarrow> w = 0"
  shows "\<exists>self' w' j'. fromRadix_loop cs (self, w, j, mi) = (self', w', j', mi)
           \<and> j' < 7 \<and> (j' = 0 \<longrightarrow> w' = 0)
           \<and> self' * 10 ^ j' + w' = (self * 10 ^ j + w) * 10 ^ length cs + radixValue 10 cs"
  using assms
proof (induction cs arbitrary: self w j)
  case Nil
  then show ?case by (simp add: radixValue_def)
next
  case (Cons c cs)
  have c: "0 \<le> intAt c"
    using Cons.prems(1) by (simp add: radixDigit_def)
  have cs: "list_all (radixDigit 10) cs"
    using Cons.prems(1) by simp
  show ?case
  proof (cases "7 \<le> j + 1")
    case True
    then have j: "j = 6" using Cons.prems(2) by simp
    obtain self' w' j' where
      l: "fromRadix_loop cs (self * 10 ^ 7 + (10 * w + intAt c), 0, 0, mi) = (self', w', j', mi)"
      and b: "j' < 7" "j' = 0 \<longrightarrow> w' = 0"
      and v: "self' * 10 ^ j' + w'
                = ((self * 10 ^ 7 + (10 * w + intAt c)) * 10 ^ 0 + 0) * 10 ^ length cs + radixValue 10 cs"
      using Cons.IH [OF cs, of 0 0 "self * 10 ^ 7 + (10 * w + intAt c)"] by auto
    have "fromRadix_loop (c # cs) (self, w, j, mi) = (self', w', j', mi)"
      using True c l by simp
    moreover have "self' * 10 ^ j' + w'
        = (self * 10 ^ j + w) * 10 ^ length (c # cs) + radixValue 10 (c # cs)"
      using v by (simp add: j radixValue_Cons algebra_simps)
    ultimately show ?thesis using b by blast
  next
    case False
    then have j: "j + 1 < 7" by simp
    obtain self' w' j' where
      l: "fromRadix_loop cs (self, 10 * w + intAt c, j + 1, mi) = (self', w', j', mi)"
      and b: "j' < 7" "j' = 0 \<longrightarrow> w' = 0"
      and v: "self' * 10 ^ j' + w'
                = (self * 10 ^ (j + 1) + (10 * w + intAt c)) * 10 ^ length cs + radixValue 10 cs"
      using Cons.IH [OF cs j, of "10 * w + intAt c" self] by auto
    have "fromRadix_loop (c # cs) (self, w, j, mi) = (self', w', j', mi)"
      using False c l by simp
    moreover have "self' * 10 ^ j' + w'
        = (self * 10 ^ j + w) * 10 ^ length (c # cs) + radixValue 10 (c # cs)"
      using v by (simp add: radixValue_Cons algebra_simps)
    ultimately show ?thesis using b by blast
  qed
qed

lemma BigInteger_str_decimal:
  assumes "decimalNumeral s"
  shows "BigInteger_str s = radixValue 10 s"
proof -
  have d: "list_all (radixDigit 10) s"
    using assms by (simp add: decimalNumeral_def)
  obtain self' w' j' where
    l: "fromRadix_loop s (0, 0, 0, False) = (self', w', j', False)"
    and b: "j' = 0 \<longrightarrow> w' = 0"
    and v: "self' * 10 ^ j' + w' = radixValue 10 s"
    using fromRadix_loop_decimal [OF d, of 0 0 0 False] by auto
  show ?thesis
    using b v by (cases "j' = 0") (simp_all add: BigInteger_str_def l)
qed

section \<open>The point for an X-coordinate\<close>

lemma modPow_eq: "1 < m \<Longrightarrow> modPow b e m = b ^ nat e mod m"
proof (induction b e m rule: modPow.induct)
  case (1 b e m)
  show ?case
  proof (cases "e \<le> 0")
    case True
    then show ?thesis using "1.prems" by (simp add: modPow.simps)
  next
    case False
    let ?h = "nat (e div 2)"
    have ih: "modPow b (e div 2) m = b ^ ?h mod m"
      using False "1.prems" "1.IH"(1) "1.IH"(2) by (cases "even e") auto
    have sq: "sqrMod (modPow b (e div 2) m) m = b ^ (2 * ?h) mod m"
      by (simp add: sqrMod_def ih mod_mult_eq power_add [symmetric] mult_2)
    show ?thesis
    proof (cases "even e")
      case True
      then have "nat e = 2 * ?h" using False by (auto elim!: evenE)
      then show ?thesis using False True sq by (simp add: modPow.simps [of b e m])
    next
      case odd: False
      then have "nat e = Suc (2 * ?h)"
        using False by (auto elim!: oddE simp: nat_add_distrib nat_mult_distrib)
      then show ?thesis using False odd sq
        by (simp add: modPow.simps [of b e m] mod_mult_right_eq mult.commute)
    qed
  qed
qed

lemma pointFromX_x: "pt_x (pointFromX isOdd x) = x"
  by (simp add: pointFromX_def Let_def)

lemma pointFromX_y:
  "pt_y (pointFromX isOdd x)
     = (if even (betaOf x) \<noteq> (\<not> isOdd) then secp256k1_p - betaOf x else betaOf x)"
  by (simp add: pointFromX_def Let_def betaOf_def alphaOf_def isEven_def even_iff_mod_2_eq_zero)

lemma pointFromX_parity: "odd (pt_y (pointFromX isOdd x)) = isOdd"
  unfolding pointFromX_y using p_odd by (cases "even (betaOf x)"; cases isOdd) simp_all

lemma square_mod_neg: "(m - b) * (m - b) mod m = b * b mod (m::int)"
proof -
  have "(m - b) * (m - b) = b * b + m * (m - 2 * b)"
    by (simp add: algebra_simps)
  then show ?thesis
    by (simp only: mod_mult_self2)
qed

lemma pointFromX_isOnCurve:
  "isOnCurve (pointFromX isOdd x) = (sqrMod (betaOf x) secp256k1_p = alphaOf x)"
proof -
  let ?P = "pointFromX isOdd x"
  have "affineY ?P * affineY ?P mod secp256k1_p = pt_y ?P * pt_y ?P mod secp256k1_p"
    by (simp add: affineY_def mod_mult_eq)
  also have "\<dots> = betaOf x * betaOf x mod secp256k1_p"
    unfolding pointFromX_y by (simp add: square_mod_neg)
  finally have l: "affineY ?P * affineY ?P mod secp256k1_p = sqrMod (betaOf x) secp256k1_p"
    by (simp add: sqrMod_def)
  have "(affineX ?P ^ 3 + secp256k1_a * affineX ?P + secp256k1_b) mod secp256k1_p
          = ((x mod secp256k1_p) ^ 3 mod secp256k1_p + secp256k1_b mod secp256k1_p) mod secp256k1_p"
    by (simp add: affineX_def pointFromX_x secp256k1_a_def mod_add_eq)
  also have "\<dots> = (x ^ 3 mod secp256k1_p + secp256k1_b mod secp256k1_p) mod secp256k1_p"
    by (simp only: power_mod)
  also have "\<dots> = alphaOf x"
    by (simp add: alphaOf_def secp256k1_a_def mod_add_eq)
  finally have r: "(affineX ?P ^ 3 + secp256k1_a * affineX ?P + secp256k1_b) mod secp256k1_p = alphaOf x" .
  show ?thesis
    by (simp add: isOnCurve_def Let_def l r)
qed

lemma alphaOf_p_minus_2: "alphaOf (secp256k1_p - 2) = secp256k1_p - 1"
proof -
  define p where "p = secp256k1_p"
  have p1: "1 < p" using p_bound(3) by (simp add: p_def)
  have "(p - 2) ^ 3 + 7 = (p - 1) + p * (p * p - 6 * p + 12 - 1)"
    by (simp add: power3_eq_cube algebra_simps)
  then have "((p - 2) ^ 3 + 7) mod p = (p - 1) mod p"
    by (simp only: mod_mult_self2)
  also have "\<dots> = p - 1"
    by (rule mod_pos_pos_trivial) (use p1 in simp_all)
  finally show ?thesis
    by (simp add: alphaOf_def secp256k1_a_def secp256k1_b_def p_def)
qed

lemma pOverFour_even: "0 \<le> pOverFour" "even pOverFour"
  by (simp_all add: pOverFour_def secp256k1_p_def)

lemma betaOf_p_minus_2: "betaOf (secp256k1_p - 2) = 1"
proof -
  define p where "p = secp256k1_p"
  have p1: "1 < p" using p_bound(3) by (simp add: p_def)
  obtain k where k: "nat pOverFour = 2 * k"
    using pOverFour_even by (metis evenE even_nat_iff)
  have "(p - 1) * (p - 1) = 1 + p * (p - 2)"
    by (simp add: algebra_simps)
  then have "(p - 1) * (p - 1) mod p = 1 mod p"
    by (simp only: mod_mult_self2)
  then have sq: "(p - 1)\<^sup>2 mod p = 1"
    using p1 by (simp add: power2_eq_square)
  have "(p - 1) ^ nat pOverFour mod p = ((p - 1)\<^sup>2 mod p) ^ k mod p"
    by (simp add: k power_mult power_mod)
  also have "\<dots> = 1"
    using p1 by (simp add: sq)
  finally have "modPow (p - 1) pOverFour p = 1"
    using p1 by (simp add: modPow_eq)
  then show ?thesis
    by (simp add: betaOf_def alphaOf_p_minus_2 p_def)
qed

lemma p_minus_2_off_curve: "\<not> isOnCurve (pointFromX isOdd (secp256k1_p - 2))"
proof -
  have "sqrMod 1 secp256k1_p = 1"
    using p_bound(3) by (simp add: sqrMod_def)
  moreover have "secp256k1_p - 1 \<noteq> 1"
    by (simp add: secp256k1_p_def)
  ultimately show ?thesis
    by (simp add: pointFromX_isOnCurve betaOf_p_minus_2 alphaOf_p_minus_2)
qed

section \<open>The constructor\<close>

lemma constructor_unfold:
  "UTXO_constructor env c =
     (case numberToHex env (fst (utxo_2 c)) of
        Inl e \<Rightarrow> Inl e
      | Inr a \<Rightarrow>
         (case numberToHex env (snd (utxo_2 c)) of
            Inl e \<Rightarrow> Inl e
          | Inr m \<Rightarrow>
              Inr \<lparr>commitmentX = fst (utxo_0 c), commitmentYBit = fst (utxo_1 c),
                   pubkeyX = fst (snd (utxo_0 c)), pubkeyYBit = fst (snd (utxo_1 c)),
                   amount = a, mask_ct = m,
                   txPubX = snd (snd (utxo_0 c)), txPubYBit = snd (snd (utxo_1 c)),
                   index = utxo_3 c,
                   lfStealth = pointFromX (yBitIsOdd (fst (snd (utxo_1 c))))
                                 (BigInteger_str (fst (snd (utxo_0 c)))),
                   lfTxPublicKey = pointFromX (yBitIsOdd (snd (snd (utxo_1 c))))
                                     (BigInteger_str (snd (snd (utxo_0 c)))),
                   lfCommitment = pointFromX (yBitIsOdd (fst (utxo_1 c)))
                                    (BigInteger_str (fst (utxo_0 c))),
                   decodedAmount = None, decodedMask = None, privKey = None\<rparr>))"
  by (simp add: UTXO_constructor_def case_prod_beta)

lemma constructor_points:
  assumes "UTXO_constructor env c = Inr u"
  shows "lfCommitment u = pointFromX (yBitIsOdd (fst (utxo_1 c))) (BigInteger_str (fst (utxo_0 c)))"
    and "lfStealth u = pointFromX (yBitIsOdd (fst (snd (utxo_1 c)))) (BigInteger_str (fst (snd (utxo_0 c))))"
    and "lfTxPublicKey u = pointFromX (yBitIsOdd (snd (snd (utxo_1 c)))) (BigInteger_str (snd (snd (utxo_0 c))))"
  using assms by (auto simp: constructor_unfold split: sum.splits)

lemma constructor_fails:
  "(UTXO_constructor env c = Inl e)
     = (numberToHex env (fst (utxo_2 c)) = Inl e
        \<or> (\<not> isl (numberToHex env (fst (utxo_2 c))) \<and> numberToHex env (snd (utxo_2 c)) = Inl e))"
  by (auto simp: constructor_unfold split: sum.splits)

lemma betaOf_power:
  "betaOf x = (x ^ 3 + 7) ^ nat ((secp256k1_p + 1) div 4) mod secp256k1_p"
proof -
  have "betaOf x = alphaOf x ^ nat pOverFour mod secp256k1_p"
    using p_bound(3) by (simp add: betaOf_def modPow_eq)
  also have "\<dots> = (x ^ 3 + 7) ^ nat pOverFour mod secp256k1_p"
    by (simp add: alphaOf_def secp256k1_a_def secp256k1_b_def power_mod)
  finally show ?thesis
    by (simp add: pOverFour_def)
qed

lemma pointFromX_y_value:
  "pt_y (pointFromX isOdd x)
     = (if even (betaOf x) = isOdd then secp256k1_p - betaOf x else betaOf x)"
  unfolding pointFromX_y by (cases "even (betaOf x)"; cases isOdd) simp_all

lemma pointFromX_decodes: "decodes X ybit (pointFromX (yBitIsOdd ybit) (BigInteger_str X))"
proof -
  let ?P = "pointFromX (yBitIsOdd ybit) (BigInteger_str X)"
  have x: "pt_x ?P = BigInteger_str X"
    by (rule pointFromX_x)
  have y: "pt_y ?P = (if even (betaOf (pt_x ?P)) = yBitIsOdd ybit
                      then secp256k1_p - betaOf (pt_x ?P) else betaOf (pt_x ?P))"
    unfolding x by (rule pointFromX_y_value)
  have yy: "pt_y ?P = betaOf (pt_x ?P) \<or> pt_y ?P = secp256k1_p - betaOf (pt_x ?P)"
    using y by (cases "even (betaOf (pt_x ?P)) = yBitIsOdd ybit") simp_all
  have d: "decimalNumeral X \<longrightarrow> pt_x ?P = radixValue 10 X"
    using BigInteger_str_decimal [of X] x by auto
  have o: "odd (pt_y ?P) = yBitIsOdd ybit"
    by (rule pointFromX_parity)
  have c: "isOnCurve ?P = (sqrMod (betaOf (pt_x ?P)) secp256k1_p = alphaOf (pt_x ?P))"
    unfolding x by (rule pointFromX_isOnCurve)
  show ?thesis
    unfolding decodes_def using x y yy d o c betaOf_power [of "pt_x ?P"] by blast
qed

lemma demo_record_built:
  "UTXO_constructor demo demo_record = Inr (projr (UTXO_constructor demo demo_record))"
  by (simp add: constructor_unfold demo_record_def demo_def demo_env_def demo_numberToHex_def
      isHexStrict_def decimalNumeral_def radixDigit_def intAt_def)

text \<open>
  C5, as the code has it. The constructor fails only when \<^verbatim>\<open>numberToHex\<close>
  throws on one of the two ciphertexts, and then with that exception: no
  coordinate makes it fail. When it returns, each of the three points has the
  X-coordinate read from its field, and its Y-coordinate is \<open>\<beta>\<close> or
  \<open>p - \<beta>\<close>, where \<open>\<beta> = (x\<^sup>3 + 7)\<^bsup>(p+1)/4\<^esup> mod p\<close> is the candidate root:
  \<open>p - \<beta>\<close> exactly when the parity of \<open>\<beta>\<close> is not the one that the test of
  the parity field selects, so that the Y-coordinate has the parity selected.
  The point lies on the curve exactly when \<open>\<beta>\<close> squares to
  \<open>\<alpha> = x\<^sup>3 + 7 mod p\<close>; nothing is checked and nothing is raised when it does
  not.
\<close>

theorem constructor_decodes_without_check:
  "(\<forall>e. UTXO_constructor env c = Inl e \<longrightarrow>
        numberToHex env (fst (utxo_2 c)) = Inl e \<or> numberToHex env (snd (utxo_2 c)) = Inl e)
   \<and> (\<forall>u. UTXO_constructor env c = Inr u \<longrightarrow>
          decodes (fst (utxo_0 c)) (fst (utxo_1 c)) (lfCommitment u)
        \<and> decodes (fst (snd (utxo_0 c))) (fst (snd (utxo_1 c))) (lfStealth u)
        \<and> decodes (snd (snd (utxo_0 c))) (snd (snd (utxo_1 c))) (lfTxPublicKey u))"
proof -
  have f: "numberToHex env (fst (utxo_2 c)) = Inl e \<or> numberToHex env (snd (utxo_2 c)) = Inl e"
    if "UTXO_constructor env c = Inl e" for e
    using that by (auto simp: constructor_fails)
  have d: "decodes (fst (utxo_0 c)) (fst (utxo_1 c)) (lfCommitment u)
        \<and> decodes (fst (snd (utxo_0 c))) (fst (snd (utxo_1 c))) (lfStealth u)
        \<and> decodes (snd (snd (utxo_0 c))) (snd (snd (utxo_1 c))) (lfTxPublicKey u)"
    if "UTXO_constructor env c = Inr u" for u
    by (simp only: constructor_points [OF that] pointFromX_decodes)
  show ?thesis
    using f d by blast
qed

theorem constructor_decodes_without_check_witness:
  "decimalNumeral (fst (snd (utxo_0 demo_record)))
   \<and> \<not> isl (UTXO_constructor demo demo_record)
   \<and> pt_x (lfStealth (projr (UTXO_constructor demo demo_record))) = Gx
   \<and> even (pt_y (lfStealth (projr (UTXO_constructor demo demo_record))))
   \<and> odd (pt_y (lfTxPublicKey (projr (UTXO_constructor demo demo_record))))
   \<and> UTXO_constructor demo (demo_record\<lparr>utxo_2 := (''zz'', ''1'')\<rparr>) = Inl (Thrown ''not a number'')
   \<and> numberToHex demo ''zz'' = Inl (Thrown ''not a number'')"
proof -
  let ?u = "projr (UTXO_constructor demo demo_record)"
  let ?bad = "demo_record\<lparr>utxo_2 := (''zz'', ''1'')\<rparr>"
  have dn: "decimalNumeral (fst (snd (utxo_0 demo_record)))"
    by (simp add: demo_record_def decimalNumeral_def radixDigit_def intAt_def)
  have v: "radixValue 10 (fst (snd (utxo_0 demo_record))) = Gx"
    by (simp add: demo_record_def radixValue_def intAt_def Gx_def)
  have b: "\<not> yBitIsOdd (fst (snd (utxo_1 demo_record)))" "yBitIsOdd (snd (snd (utxo_1 demo_record)))"
    by (simp_all add: demo_record_def yBitIsOdd_def rem2_is_1_def js_rem_def parseInt_def
        isWhiteSpace_def radixDigit_def radixValue_def intAt_def)
  have s: "decodes (fst (snd (utxo_0 demo_record))) (fst (snd (utxo_1 demo_record))) (lfStealth ?u)"
    and t: "decodes (snd (snd (utxo_0 demo_record))) (snd (snd (utxo_1 demo_record))) (lfTxPublicKey ?u)"
    using constructor_decodes_without_check [of demo demo_record] demo_record_built by blast+
  have "decimalNumeral (fst (snd (utxo_0 demo_record)))
          \<longrightarrow> pt_x (lfStealth ?u) = radixValue 10 (fst (snd (utxo_0 demo_record)))"
    and "odd (pt_y (lfStealth ?u)) = yBitIsOdd (fst (snd (utxo_1 demo_record)))"
    using s unfolding decodes_def by blast+
  then have "pt_x (lfStealth ?u) = Gx" "even (pt_y (lfStealth ?u))"
    using dn v b(1) by simp_all
  moreover have "odd (pt_y (lfTxPublicKey ?u)) = yBitIsOdd (snd (snd (utxo_1 demo_record)))"
    using t unfolding decodes_def by blast
  then have "odd (pt_y (lfTxPublicKey ?u))"
    using b(2) by simp
  moreover have "\<not> isl (UTXO_constructor demo demo_record)"
    using demo_record_built by (metis sum.disc(2))
  moreover have f: "UTXO_constructor demo ?bad = Inl (Thrown ''not a number'')"
    by (simp add: constructor_unfold demo_def demo_env_def demo_numberToHex_def
        isHexStrict_def decimalNumeral_def radixDigit_def intAt_def)
  moreover have "numberToHex demo ''zz'' = Inl (Thrown ''not a number'')"
  proof -
    have "numberToHex demo (snd (utxo_2 ?bad)) \<noteq> Inl (Thrown ''not a number'')"
      by (simp add: demo_def demo_env_def demo_numberToHex_def
          isHexStrict_def decimalNumeral_def radixDigit_def intAt_def)
    then have "numberToHex demo (fst (utxo_2 ?bad)) = Inl (Thrown ''not a number'')"
      using constructor_decodes_without_check [of demo ?bad] f by blast
    then show ?thesis by simp
  qed
  ultimately show ?thesis
    using dn by blast
qed

text \<open>
  C5, as it is stated, fails. The X-coordinate \<open>p - 2\<close> gives \<open>\<alpha> = p - 1\<close>, and
  the candidate root is \<open>1\<close>, whose square is not \<open>\<alpha>\<close>; the constructor
  returns all the same, with a one-time address that is not on the curve.
\<close>

theorem off_curve_record_is_decoded:
  "\<not> isl (UTXO_constructor demo off_curve_record)
   \<and> pt_x (lfStealth (projr (UTXO_constructor demo off_curve_record))) = secp256k1_p - 2
   \<and> \<not> isOnCurve (lfStealth (projr (UTXO_constructor demo off_curve_record)))"
proof -
  have x: "BigInteger_str (fst (snd (utxo_0 off_curve_record))) = secp256k1_p - 2"
    by (simp add: off_curve_record_def BigInteger_str_def intAt_def secp256k1_p_def)
  have h: "UTXO_constructor demo off_curve_record
             = Inr (projr (UTXO_constructor demo off_curve_record))"
    by (simp add: constructor_unfold off_curve_record_def demo_def demo_env_def
        demo_numberToHex_def isHexStrict_def decimalNumeral_def radixDigit_def intAt_def)
  have "lfStealth (projr (UTXO_constructor demo off_curve_record))
          = pointFromX (yBitIsOdd (fst (snd (utxo_1 off_curve_record)))) (secp256k1_p - 2)"
    using constructor_points(2) [OF h] by (simp only: x)
  moreover have "\<not> isl (UTXO_constructor demo off_curve_record)"
    using h by (metis sum.disc(2))
  ultimately show ?thesis
    by (simp add: pointFromX_x p_minus_2_off_curve)
qed

text \<open>
  What the constructor stores of the index and of the two ciphertexts: the index
  as it is, and for each ciphertext what \<^verbatim>\<open>numberToHex\<close> returns for it.
\<close>

lemma constructor_index_and_ciphertexts:
  assumes "UTXO_constructor env c = Inr u"
  shows "index u = utxo_3 c
       \<and> numberToHex env (fst (utxo_2 c)) = Inr (amount u)
       \<and> numberToHex env (snd (utxo_2 c)) = Inr (mask_ct u)"
  using assms by (auto simp: constructor_unfold split: sum.splits)

section \<open>The parity fields\<close>

lemma radixValue_nonneg_foldl:
  "list_all (radixDigit R) cs \<Longrightarrow> 0 \<le> a \<Longrightarrow> 0 \<le> foldl (\<lambda>acc c. acc * int R + intAt c) a cs"
proof (induction cs arbitrary: a)
  case Nil
  then show ?case by simp
next
  case (Cons c cs)
  have "0 \<le> a * int R + intAt c"
    using Cons.prems by (simp add: radixDigit_def)
  then show ?case
    using Cons.IH [of "a * int R + intAt c"] Cons.prems(1) by simp
qed

lemma parityOf_decimal:
  assumes "decimalNumeral b" and "radixValue 10 b < 2 ^ 53"
  shows "parityOf b = odd (radixValue 10 b)"
proof -
  have "0 \<le> radixValue 10 b"
    using assms(1) radixValue_nonneg_foldl [of 10 b 0] by (simp add: decimalNumeral_def radixValue_def)
  then show ?thesis
    using assms(2) by (simp add: parityOf_def parseInt_decimal [OF assms(1)])
qed

lemma constructor_isl_bits:
  "isl (UTXO_constructor env (c\<lparr>utxo_1 := bits\<rparr>)) = isl (UTXO_constructor env c)"
  by (simp add: constructor_unfold split: sum.splits)

text \<open>
  C10, as the code has it. The Y-root of each of the three points is odd exactly
  when \<^verbatim>\<open>parseInt\<close> reads its parity field as an odd integer from \<open>0\<close> up
  to \<open>2\<^sup>5\<^sup>3\<close>. So a decimal numeral below \<open>2\<^sup>5\<^sup>3\<close> selects the root of the
  parity of its value; a field that is read as a negative integer, as an integer
  from \<open>2\<^sup>5\<^sup>3\<close> on, or as no number selects the even root. No parity field is
  rejected: whether the constructor returns does not depend on them.
\<close>

theorem parity_field_selects_root:
  "(\<forall>u. UTXO_constructor env c = Inr u \<longrightarrow>
        odd (pt_y (lfCommitment u)) = parityOf (fst (utxo_1 c))
      \<and> odd (pt_y (lfStealth u)) = parityOf (fst (snd (utxo_1 c)))
      \<and> odd (pt_y (lfTxPublicKey u)) = parityOf (snd (snd (utxo_1 c))))
   \<and> (\<forall>bits. isl (UTXO_constructor env (c\<lparr>utxo_1 := bits\<rparr>)) = isl (UTXO_constructor env c))
   \<and> (\<forall>b. decimalNumeral b \<and> radixValue 10 b < 2 ^ 53 \<longrightarrow> parityOf b = odd (radixValue 10 b))
   \<and> (\<forall>b n. parseInt b = Some n \<and> (n < 0 \<or> 2 ^ 53 \<le> n) \<longrightarrow> \<not> parityOf b)
   \<and> (\<forall>b. parseInt b = None \<longrightarrow> \<not> parityOf b)"
proof -
  have a: "odd (pt_y (lfCommitment u)) = parityOf (fst (utxo_1 c))
      \<and> odd (pt_y (lfStealth u)) = parityOf (fst (snd (utxo_1 c)))
      \<and> odd (pt_y (lfTxPublicKey u)) = parityOf (snd (snd (utxo_1 c)))"
    if "UTXO_constructor env c = Inr u" for u
    by (simp only: constructor_points [OF that] pointFromX_parity yBitIsOdd_parityOf)
  have b: "\<not> parityOf b" if "parseInt b = Some n \<and> (n < 0 \<or> 2 ^ 53 \<le> n)" for b n
    using that by (auto simp: parityOf_def)
  have c: "\<not> parityOf b" if "parseInt b = None" for b
    using that by (simp add: parityOf_def)
  show ?thesis
    using a b c parityOf_decimal constructor_isl_bits by blast
qed

theorem parity_field_selects_root_witness:
  "\<not> isl (UTXO_constructor demo demo_record)
   \<and> utxo_1 demo_record = (''0'', ''2'', ''3'')
   \<and> even (pt_y (lfCommitment (projr (UTXO_constructor demo demo_record))))
   \<and> even (pt_y (lfStealth (projr (UTXO_constructor demo demo_record))))
   \<and> odd (pt_y (lfTxPublicKey (projr (UTXO_constructor demo demo_record))))
   \<and> decimalNumeral ''3'' \<and> radixValue 10 ''3'' < 2 ^ 53 \<and> parityOf ''3''
   \<and> parseInt ''-3'' = Some (- 3) \<and> \<not> parityOf ''-3''
   \<and> parseInt ''odd'' = None \<and> \<not> parityOf ''odd''"
proof -
  let ?u = "projr (UTXO_constructor demo demo_record)"
  note T = parity_field_selects_root [of demo demo_record]
  have built: "\<not> isl (UTXO_constructor demo demo_record)"
    using demo_record_built by (metis sum.disc(2))
  have bits: "utxo_1 demo_record = (''0'', ''2'', ''3'')"
    by (simp add: demo_record_def)
  have p: "parseInt ''0'' = Some 0" "parseInt ''2'' = Some 2" "parseInt ''3'' = Some 3"
    "parseInt ''-3'' = Some (- 3)" "parseInt ''odd'' = None"
    by (simp_all add: parseInt_def isWhiteSpace_def radixDigit_def radixValue_def intAt_def)
  have d: "decimalNumeral ''3''" "radixValue 10 ''3'' < 2 ^ 53" "odd (radixValue 10 ''3'')"
    by (simp_all add: decimalNumeral_def radixDigit_def radixValue_def intAt_def)
  have q: "\<not> parityOf ''0''" "\<not> parityOf ''2''"
    by (simp_all add: parityOf_def p)
  have "odd (pt_y (lfCommitment ?u)) = parityOf (fst (utxo_1 demo_record))"
    "odd (pt_y (lfStealth ?u)) = parityOf (fst (snd (utxo_1 demo_record)))"
    "odd (pt_y (lfTxPublicKey ?u)) = parityOf (snd (snd (utxo_1 demo_record)))"
    using T demo_record_built by blast+
  moreover have p3: "parityOf ''3''"
    using T d by blast
  moreover have "\<not> parityOf ''-3''"
    using T p(4) by (metis neg_less_0_iff_less zero_less_numeral)
  moreover have "\<not> parityOf ''odd''"
    using T p(5) by blast
  ultimately show ?thesis
    using built bits p(4) p(5) d(1) d(2) q by simp
qed

text \<open>
  C10, as it is stated, fails for a negative field: \<^verbatim>\<open>'-1'\<close> is read as the
  odd integer \<open>-1\<close>, whose remainder is \<open>-1\<close> and not \<open>1\<close>, and the even root
  is selected.
\<close>

theorem negative_odd_field_selects_even_root:
  "\<not> isl (UTXO_constructor demo negative_bit_record)
   \<and> fst (snd (utxo_1 negative_bit_record)) = ''-1''
   \<and> parseInt ''-1'' = Some (- 1)
   \<and> odd (- 1 :: int)
   \<and> js_rem (- 1) 2 = - 1
   \<and> even (pt_y (lfStealth (projr (UTXO_constructor demo negative_bit_record))))"
proof -
  have h: "UTXO_constructor demo negative_bit_record
             = Inr (projr (UTXO_constructor demo negative_bit_record))"
    by (simp add: constructor_unfold negative_bit_record_def demo_def demo_env_def
        demo_numberToHex_def isHexStrict_def decimalNumeral_def radixDigit_def intAt_def)
  have b: "fst (snd (utxo_1 negative_bit_record)) = ''-1''"
    by (simp add: negative_bit_record_def)
  have p: "parseInt ''-1'' = Some (- 1)"
    by (simp add: parseInt_def isWhiteSpace_def radixDigit_def radixValue_def intAt_def)
  have r: "js_rem (- 1) 2 = - 1"
    by (simp add: js_rem_def)
  have "\<not> yBitIsOdd ''-1''"
    by (simp add: yBitIsOdd_def rem2_is_1_def p r)
  then have "even (pt_y (lfStealth (projr (UTXO_constructor demo negative_bit_record))))"
    using pointFromX_parity [of "yBitIsOdd ''-1''"] by (simp add: constructor_points(2) [OF h] b)
  moreover have "\<not> isl (UTXO_constructor demo negative_bit_record)"
    using h by (metis sum.disc(2))
  ultimately show ?thesis
    using b p r by simp
qed

section \<open>The digest and the signature\<close>

text \<open>
  C7. \<^verbatim>\<open>getHashData(a)\<close> is \<^verbatim>\<open>soliditySha3\<close> of the hexadecimal writing of
  what \<^verbatim>\<open>bconcat\<close> makes of three items in this order: the commitment (65
  bytes, uncompressed), the one-time address (65 bytes, uncompressed) and
  \<^verbatim>\<open>hextobin(a)\<close>; an exception of \<^verbatim>\<open>hextobin\<close> is passed on. With the
  \<^verbatim>\<open>bconcat\<close> of the spec, which joins the bytes of the items, this is the
  digest of the bytes of the commitment, then of the one-time address, then of
  \<open>a\<close>. The digest depends on the instance through the two encodings only.
\<close>

theorem getHashData_digest:
  "getHashData env a u
     = (case hextobin env a of
          Inl e \<Rightarrow> Inl e
        | Inr target \<Rightarrow>
            Inr (soliditySha3 env
                   (bintohex env
                      (bconcat env
                         [Inl (getEncoded (lfCommitment u)), Inl (getEncoded (lfStealth u)),
                          Inr target]))))
   \<and> (\<forall>bytes. bconcat env = bconcat_spec bytes \<longrightarrow>
         getHashData env a u
           = (case hextobin env a of
                Inl e \<Rightarrow> Inl e
              | Inr target \<Rightarrow>
                  Inr (soliditySha3 env
                         (bintohex env
                            (getEncoded (lfCommitment u) @ getEncoded (lfStealth u)
                               @ bytes target)))))
   \<and> length (getEncoded (lfCommitment u)) = 65 \<and> getEncoded (lfCommitment u) ! 0 = 4
   \<and> length (getEncoded (lfStealth u)) = 65 \<and> getEncoded (lfStealth u) ! 0 = 4
   \<and> (\<forall>u'. getEncoded (lfCommitment u') = getEncoded (lfCommitment u)
            \<and> getEncoded (lfStealth u') = getEncoded (lfStealth u)
          \<longrightarrow> getHashData env a u' = getHashData env a u)"
proof -
  have spec: "getHashData env a u
           = (case hextobin env a of
                Inl e \<Rightarrow> Inl e
              | Inr target \<Rightarrow>
                  Inr (soliditySha3 env
                         (bintohex env
                            (getEncoded (lfCommitment u) @ getEncoded (lfStealth u)
                               @ bytes target))))"
    if "bconcat env = bconcat_spec bytes" for bytes
    by (simp add: getHashData_def that bconcat_spec_def cong: sum.case_cong)
  have same: "getHashData env a u' = getHashData env a u"
    if "getEncoded (lfCommitment u') = getEncoded (lfCommitment u)
          \<and> getEncoded (lfStealth u') = getEncoded (lfStealth u)" for u'
    by (simp add: getHashData_def that cong: sum.case_cong)
  have code: "getHashData env a u
     = (case hextobin env a of
          Inl e \<Rightarrow> Inl e
        | Inr target \<Rightarrow>
            Inr (soliditySha3 env
                   (bintohex env
                      (bconcat env
                         [Inl (getEncoded (lfCommitment u)), Inl (getEncoded (lfStealth u)),
                          Inr target]))))"
    by (simp add: getHashData_def)
  have enc: "length (getEncoded (lfCommitment u)) = 65" "getEncoded (lfCommitment u) ! 0 = 4"
    "length (getEncoded (lfStealth u)) = 65" "getEncoded (lfStealth u) ! 0 = 4"
    by (simp_all add: getEncoded_length getEncoded_prefix)
  show ?thesis
    using code spec same enc by blast
qed

lemma demo_utxo_encodings:
  "getEncoded (lfCommitment demo_utxo) = G_bytes" "getEncoded (lfStealth demo_utxo) = G_bytes"
  by (simp_all add: demo_utxo_def getEncoded_def toBuffer_def affineX_def affineY_def Gx_def Gy_def
      secp256k1_p_def toByteArrayUnsigned.simps G_bytes_def)

lemma demo_bconcat: "bconcat demo = bconcat_spec (\<lambda>bin. bin)"
  by (simp add: demo_def demo_env_def)

lemma demo_hextobin: "hextobin demo ''00ff'' = Inr [0x00, 0xFF]"
  by (simp add: demo_def demo_env_def hextobin_model_def radixValue_def intAt_def)

lemma demo_digest:
  "getHashData demo ''00ff'' demo_utxo
     = Inr (''sha3('' @ bintohex_model (G_bytes @ G_bytes @ [0x00, 0xFF]) @ '')'')"
  by (simp add: getHashData_def demo_bconcat bconcat_spec_def demo_utxo_encodings demo_hextobin)
     (simp add: demo_def demo_env_def)

theorem getHashData_digest_witness:
  "bconcat demo = bconcat_spec (\<lambda>bin. bin)
   \<and> hextobin demo ''00ff'' = Inr [0x00, 0xFF]
   \<and> getHashData demo ''00ff'' demo_utxo
     = Inr (soliditySha3 demo
              (bintohex demo
                 (getEncoded (lfCommitment demo_utxo) @ getEncoded (lfStealth demo_utxo)
                    @ [0x00, 0xFF])))
   \<and> getEncoded (lfCommitment (demo_utxo\<lparr>index := 8, lfStealth := \<lparr>pt_x = Gx + secp256k1_p, pt_y = Gy\<rparr>\<rparr>))
     = getEncoded (lfCommitment demo_utxo)
   \<and> getEncoded (lfStealth (demo_utxo\<lparr>index := 8, lfStealth := \<lparr>pt_x = Gx + secp256k1_p, pt_y = Gy\<rparr>\<rparr>))
     = getEncoded (lfStealth demo_utxo)
   \<and> getHashData demo ''00ff'' (demo_utxo\<lparr>index := 8, lfStealth := \<lparr>pt_x = Gx + secp256k1_p, pt_y = Gy\<rparr>\<rparr>)
     = Inr (''sha3('' @ bintohex_model (G_bytes @ G_bytes @ [0x00, 0xFF]) @ '')'')"
proof -
  let ?u' = "demo_utxo\<lparr>index := 8, lfStealth := \<lparr>pt_x = Gx + secp256k1_p, pt_y = Gy\<rparr>\<rparr>"
  note T = getHashData_digest [of demo "''00ff''" demo_utxo]
  have c: "getEncoded (lfCommitment ?u') = getEncoded (lfCommitment demo_utxo)"
    by simp
  have s: "getEncoded (lfStealth ?u') = getEncoded (lfStealth demo_utxo)"
    by (simp add: demo_utxo_def getEncoded_def affineX_def affineY_def)
  have "getHashData demo ''00ff'' demo_utxo
          = (case hextobin demo ''00ff'' of
               Inl e \<Rightarrow> Inl e
             | Inr target \<Rightarrow>
                 Inr (soliditySha3 demo
                        (bintohex demo
                           (getEncoded (lfCommitment demo_utxo) @ getEncoded (lfStealth demo_utxo)
                              @ target))))"
    using T demo_bconcat by blast
  then have d: "getHashData demo ''00ff'' demo_utxo
     = Inr (soliditySha3 demo
              (bintohex demo
                 (getEncoded (lfCommitment demo_utxo) @ getEncoded (lfStealth demo_utxo)
                    @ [0x00, 0xFF])))"
    by (simp only: demo_hextobin sum.case)
  have "getHashData demo ''00ff'' ?u' = getHashData demo ''00ff'' demo_utxo"
    using T c s by blast
  then have "getHashData demo ''00ff'' ?u'
     = Inr (''sha3('' @ bintohex_model (G_bytes @ G_bytes @ [0x00, 0xFF]) @ '')'')"
    by (simp only: demo_digest)
  then show ?thesis
    using c s d demo_bconcat demo_hextobin by blast
qed

text \<open>
  C8. \<^verbatim>\<open>sign(p, a)\<close> is the signature, by the key made from \<open>p\<close>, of the
  digest \<^verbatim>\<open>getHashData(a)\<close> of the same instance: the message handed to
  \<^verbatim>\<open>key.sign\<close> is that digest, and the instance enters the signature through
  the digest only. An exception of the key, of the digest or of the signing is
  passed on.
\<close>

theorem sign_signs_digest:
  "sign env p a u
     = (case keyFromPrivate env p of
          Inl e \<Rightarrow> Inl e
        | Inr key \<Rightarrow>
           (case getHashData env a u of
              Inl e \<Rightarrow> Inl e
            | Inr context \<Rightarrow> key_sign env key context))
   \<and> (\<forall>s. sign env p a u = Inr s \<longrightarrow>
          (\<exists>key context. keyFromPrivate env p = Inr key
                        \<and> getHashData env a u = Inr context
                        \<and> key_sign env key context = Inr s))
   \<and> (\<forall>u'. getHashData env a u' = getHashData env a u \<longrightarrow> sign env p a u' = sign env p a u)"
  by (auto simp: sign_def split: sum.splits)

theorem sign_signs_digest_witness:
  "getHashData demo ''00ff'' (demo_utxo\<lparr>index := 8\<rparr>) = getHashData demo ''00ff'' demo_utxo
   \<and> sign demo ''0b'' ''00ff'' (demo_utxo\<lparr>index := 8\<rparr>)
     = Inr (''0b'', ''sha3('' @ bintohex_model (G_bytes @ G_bytes @ [0x00, 0xFF]) @ '')'')
   \<and> sign demo ''0b'' ''00ff'' demo_utxo
     = Inr (''0b'', ''sha3('' @ bintohex_model (G_bytes @ G_bytes @ [0x00, 0xFF]) @ '')'')"
proof -
  have h: "getHashData demo ''00ff'' (demo_utxo\<lparr>index := 8\<rparr>) = getHashData demo ''00ff'' demo_utxo"
    by (simp add: getHashData_def cong: sum.case_cong)
  have k: "keyFromPrivate demo ''0b'' = Inr ''0b''"
    by (simp add: demo_def demo_env_def)
  have s: "key_sign demo ''0b'' m = Inr (''0b'', m)" for m
    by (simp add: demo_def demo_env_def)
  note T = sign_signs_digest [of demo "''0b''" "''00ff''" demo_utxo]
  have "sign demo ''0b'' ''00ff'' demo_utxo
          = Inr (''0b'', ''sha3('' @ bintohex_model (G_bytes @ G_bytes @ [0x00, 0xFF]) @ '')'')"
    using T by (simp only: k demo_digest s sum.case)
  moreover have "sign demo ''0b'' ''00ff'' (demo_utxo\<lparr>index := 8\<rparr>) = sign demo ''0b'' ''00ff'' demo_utxo"
    using T h by blast
  ultimately show ?thesis
    using h by simp
qed

section \<open>A coin from a proof\<close>

lemma mod_certificate: "a = q * m + r \<Longrightarrow> 0 \<le> r \<Longrightarrow> r < m \<Longrightarrow> a mod m = (r::int)"
  by simp

lemma G_on_curve: "isOnCurve \<lparr>pt_x = Gx, pt_y = Gy\<rparr>"
proof -
  define r :: int where "r = 32748224938747404814623910738487752935528512903530129802856995983256684603122"
  have x: "Gx mod secp256k1_p = Gx" and y: "Gy mod secp256k1_p = Gy"
    by (simp_all add: Gx_def Gy_def secp256k1_p_def)
  have "Gy * Gy = 9217920084583157935602994580951900810186344190718383666107426471107247357458 * secp256k1_p + r"
    by (simp add: Gy_def secp256k1_p_def r_def)
  then have l: "Gy * Gy mod secp256k1_p = r"
    by (rule mod_certificate) (simp_all add: r_def secp256k1_p_def)
  have "Gx ^ 3 + 7 = 1442042049659660869506300006036683750029629333882594701370927246876626245108445140822412359839636311708589143988241317295940670619760105320846347035878395 * secp256k1_p + r"
    by (simp add: Gx_def secp256k1_p_def r_def)
  then have "(Gx ^ 3 + 7) mod secp256k1_p = r"
    by (rule mod_certificate) (simp_all add: r_def secp256k1_p_def)
  then show ?thesis
    by (simp add: isOnCurve_def affineX_def affineY_def x y l secp256k1_a_def secp256k1_b_def)
qed

lemma G_bytes_decoded: "decodedX G_bytes = Gx" "decodedY G_bytes = Gy"
  by (simp_all add: decodedX_def decodedY_def fromBuffer_def Buffer_slice_def G_bytes_def Gx_def Gy_def)

lemma G_bytes_valid: "validEncoding G_bytes"
proof -
  have "length G_bytes = 65" "G_bytes ! 0 = 4"
    by (simp_all add: G_bytes_def)
  moreover have "Gx < secp256k1_p" "Gy < secp256k1_p"
    by (simp_all add: Gx_def Gy_def secp256k1_p_def)
  ultimately show ?thesis
    by (simp add: validEncoding_def G_bytes_decoded G_on_curve)
qed

lemma G_bytes_joined:
  "Buffer_join (Buffer_slice 1 33 G_bytes) = ''12119010212624922018717285160981492061351172155252219452064021789242129912224823152''"
  by (simp add: Buffer_join_def Buffer_slice_def G_bytes_def decimal.simps digit_char_def)

lemma joined_value:
  "BigInteger_str ''12119010212624922018717285160981492061351172155252219452064021789242129912224823152'' = 12119010212624922018717285160981492061351172155252219452064021789242129912224823152"
  by (simp add: BigInteger_str_def intAt_def)

lemma joined_mod: "12119010212624922018717285160981492061351172155252219452064021789242129912224823152 mod secp256k1_p = (94360958171689490922298987206937520082290161612379130351589390383366653901909::int)"
proof -
  have "(12119010212624922018717285160981492061351172155252219452064021789242129912224823152::int) = 104661 * secp256k1_p + 94360958171689490922298987206937520082290161612379130351589390383366653901909"
    by (simp add: secp256k1_p_def)
  then show ?thesis
    by (rule mod_certificate) (simp_all add: secp256k1_p_def)
qed

lemma constructor_commitmentX:
  assumes "UTXO_constructor env c = Inr u"
  shows "commitmentX u = fst (utxo_0 c)"
  using assms by (auto simp: constructor_unfold split: sum.splits)

text \<open>
  C3 fails on the code. \<^verbatim>\<open>fromProof\<close> takes the X-coordinate of a point with
  \<^verbatim>\<open>slice(1, 33).join('')\<close>, which writes the 32 bytes as 32 decimal numerals
  one after the other; that string is not the decimal numeral of \<open>X\<close>. For the
  proof whose three points are the base point \<open>G\<close>, a valid encoding of a
  point of the curve, the commitment of the coin built has another affine
  X-coordinate than \<open>G\<close>.
\<close>

theorem fromProof_of_generator:
  "validEncoding (commitment demo_proof)
   \<and> \<not> isl (fromProof demo demo_proof)
   \<and> decodedX (commitment demo_proof) = Gx
   \<and> commitmentX (projr (fromProof demo demo_proof)) = ''12119010212624922018717285160981492061351172155252219452064021789242129912224823152''
   \<and> affineX (lfCommitment (projr (fromProof demo demo_proof))) = 94360958171689490922298987206937520082290161612379130351589390383366653901909
   \<and> affineX (lfCommitment (projr (fromProof demo demo_proof))) \<noteq> decodedX (commitment demo_proof)"
proof -
  let ?c = "\<lparr>utxo_0 = (Buffer_join (Buffer_slice 1 33 (commitment demo_proof)),
                       Buffer_join (Buffer_slice 1 33 (onetimeAddress demo_proof)),
                       Buffer_join (Buffer_slice 1 33 (txPublicKey demo_proof))),
             utxo_1 = (yBitOf (commitment demo_proof),
                       yBitOf (onetimeAddress demo_proof),
                       yBitOf (txPublicKey demo_proof)),
             utxo_2 = (encryptedAmount demo_proof, encryptedMask demo_proof),
             utxo_3 = proof_index demo_proof\<rparr>"
  let ?u = "projr (fromProof demo demo_proof)"
  have c: "commitment demo_proof = G_bytes"
    by (simp add: demo_proof_def)
  have h: "UTXO_constructor demo ?c = Inr ?u"
    by (simp add: fromProof_def constructor_unfold demo_proof_def demo_def demo_env_def
        demo_numberToHex_def isHexStrict_def radixDigit_def intAt_def)
  have x: "fst (utxo_0 ?c) = ''12119010212624922018717285160981492061351172155252219452064021789242129912224823152''"
    by (simp add: c G_bytes_joined)
  have "commitmentX ?u = fst (utxo_0 ?c)"
    by (rule constructor_commitmentX [OF h])
  then have cx: "commitmentX ?u = ''12119010212624922018717285160981492061351172155252219452064021789242129912224823152''"
    by (simp only: x)
  have "lfCommitment ?u = pointFromX (yBitIsOdd (fst (utxo_1 ?c))) (BigInteger_str (fst (utxo_0 ?c)))"
    by (rule constructor_points(1) [OF h])
  then have "affineX (lfCommitment ?u) = 12119010212624922018717285160981492061351172155252219452064021789242129912224823152 mod secp256k1_p"
    by (simp only: x joined_value affineX_def pointFromX_x)
  then have ax: "affineX (lfCommitment ?u) = 94360958171689490922298987206937520082290161612379130351589390383366653901909"
    by (simp only: joined_mod)
  have ne: "(94360958171689490922298987206937520082290161612379130351589390383366653901909::int) \<noteq> Gx"
    by (simp add: Gx_def)
  have "\<not> isl (fromProof demo demo_proof)"
    using h by (metis fromProof_def sum.disc(2))
  then show ?thesis
    using cx ax ne by (simp add: c G_bytes_valid G_bytes_decoded)
qed

end
